theory Spec2Isabelle
  imports Complex_Main "HOL-Library.AList" "HOL-Library.Char_ord" "HOL-Library.List_Lexorder"
begin

section \<open>The healthcare record store of backendcould.py\<close>

text \<open>
  The class \<open>HealthcareSystem\<close> keeps one Python dictionary \<open>self.data\<close> with five
  collections and the table \<open>next_ids\<close>, and rewrites one JSON file after every
  successful mutation. Python dictionaries keep insertion order, \<open>d[k] = v\<close> replaces
  the value of a key in place or appends a new key, and \<open>d.values()\<close> lists the values in
  that order: this is an association list with \<open>map_of\<close> for the lookup and
  \<open>AList.update\<close> for the assignment.
\<close>

subsection \<open>Values, records and the document\<close>

text \<open>
  The values stored in a record: \<open>None\<close>, booleans, unbounded integers, floats (only
  carried, never computed with: the finite float is kept as the real number it denotes)
  and strings.
\<close>

datatype pyval = PNone | PBool bool | PInt int | PFloat real | PStr string

text \<open>A record such as a patient: field name to value.\<close>

type_synonym pydict = "(string \<times> pyval) list"

text \<open>
  The key of a record in its collection. The operations store a user under the username
  (a string) and every other record under its integer identifier; a document read back
  from JSON has string keys only.
\<close>

datatype pykey = KInt int | KStr string

type_synonym collection = "(pykey \<times> pydict) list"

record document =
  users :: collection
  patients :: collection
  doctors :: collection
  beds :: collection
  medicines :: collection
  next_ids :: "(string \<times> int) list"

text \<open>What \<open>json.dump\<close> writes: a JSON object has string keys only.\<close>

record json_document =
  json_users :: "(string \<times> pydict) list"
  json_patients :: "(string \<times> pydict) list"
  json_doctors :: "(string \<times> pydict) list"
  json_beds :: "(string \<times> pydict) list"
  json_medicines :: "(string \<times> pydict) list"
  json_next_ids :: "(string \<times> int) list"

text \<open>
  The object: \<open>data\<close> is \<open>self.data\<close>; \<open>disk\<close> is the content of
  \<open>self.data_file\<close> (\<open>None\<close> when the file is absent or cannot be parsed). Two
  observation fields are not part of the Python object: \<open>saves\<close> counts the calls of
  \<open>save_data\<close>, and \<open>issued\<close> lists, oldest first, what \<open>get_next_id\<close> has
  returned, with the entity type it was asked for.
\<close>

record system =
  data :: document
  disk :: "json_document option"
  saves :: nat
  issued :: "(string \<times> int) list"

text \<open>
  The failure results (\<open>{"success": False, "message": ...}\<close>), named as the
  specification names them, and the two Python exceptions a lookup or a comparison can
  raise.
\<close>

datatype entity = User | Patient | Doctor | Bed | Medicine

datatype error =
    DuplicateUsername     \<comment> \<open>"Username already exists"\<close>
  | NotFound entity       \<comment> \<open>"User not found", "Patient not found", "Doctor not found",
                              "Bed not found", "Medicine not found"\<close>
  | InvalidCredentials    \<comment> \<open>"Invalid password"\<close>
  | AccountDisabled       \<comment> \<open>"Account deactivated"\<close>
  | BedNotAvailable       \<comment> \<open>"Bed is not available"\<close>
  | BedNotOccupied        \<comment> \<open>"Bed is not occupied"\<close>
  | KeyError              \<comment> \<open>raised by \<open>d[k]\<close> on a missing key\<close>
  | TypeError             \<comment> \<open>raised by \<open><=\<close> between a string and a non-string\<close>

subsection \<open>Python primitives\<close>

text \<open>\<open>str(n)\<close> of an integer: decimal digits, a minus sign when negative.\<close>

definition digit_char :: "nat \<Rightarrow> char" where
  "digit_char d = ''0123456789'' ! d"

fun str_nat :: "nat \<Rightarrow> string" where
  "str_nat n = (if n < 10 then [digit_char n] else str_nat (n div 10) @ [digit_char (n mod 10)])"

declare str_nat.simps [simp del]

definition str_int :: "int \<Rightarrow> string" where
  "str_int i = (if i < 0 then CHR ''-'' # str_nat (nat (- i)) else str_nat (nat i))"

text \<open>The key \<open>json.dump\<close> writes for a dictionary key: a string as it is, an integer as \<open>str\<close> of it.\<close>

fun key_str :: "pykey \<Rightarrow> string" where
  "key_str (KStr s) = s"
| "key_str (KInt i) = str_int i"

text \<open>Truth value of a value in \<open>if v\<close> and \<open>not v\<close>.\<close>

fun truthy :: "pyval \<Rightarrow> bool" where
  "truthy PNone = False"
| "truthy (PBool b) = b"
| "truthy (PInt i) = (i \<noteq> 0)"
| "truthy (PFloat r) = (r \<noteq> 0)"
| "truthy (PStr s) = (s \<noteq> [])"

text \<open>\<open>v <= t\<close> for a string \<open>t\<close>: lexicographic on strings, \<open>TypeError\<close> otherwise.\<close>

fun le_str :: "pyval \<Rightarrow> string \<Rightarrow> error + bool" where
  "le_str (PStr x) t = Inr (x \<le> t)"
| "le_str v t = Inl TypeError"

text \<open>
  A list comprehension \<open>[x for x in xs if c(x)]\<close> whose condition may raise: the first
  exception, in iteration order, ends it.
\<close>

fun comprehension :: "('a \<Rightarrow> error + bool) \<Rightarrow> 'a list \<Rightarrow> error + 'a list" where
  "comprehension c [] = Inr []"
| "comprehension c (x # xs) =
     (case c x of
        Inl e \<Rightarrow> Inl e
      | Inr b \<Rightarrow>
          (case comprehension c xs of
             Inl e \<Rightarrow> Inl e
           | Inr ys \<Rightarrow> Inr (if b then x # ys else ys)))"

text \<open>
  \<open>datetime.date.today().isoformat()\<close>: the calendar date as \<open>YYYY-MM-DD\<close>, zero
  padded. The current date and the current time stamp are inputs of the operations that
  read the clock.
\<close>

record date =
  year :: nat
  month :: nat
  day :: nat

definition zfill :: "nat \<Rightarrow> string \<Rightarrow> string" where
  "zfill n s = replicate (n - length s) CHR ''0'' @ s"

definition isoformat :: "date \<Rightarrow> string" where
  "isoformat d =
     zfill 4 (str_nat (year d)) @ ''-'' @ zfill 2 (str_nat (month d)) @ ''-'' @ zfill 2 (str_nat (day d))"

subsection \<open>Persistence\<close>

text \<open>
  \<open>save_data\<close> rewrites the whole file with \<open>json.dump(self.data)\<close>; \<open>load_data\<close>
  returns \<open>json.load\<close> of the file, or the empty structure when there is no readable
  file. The file system is taken as it is specified: a write succeeds and a read returns
  what was last written. \<open>json.dump\<close> writes every dictionary key as a string (an integer
  key as its decimal form); records and \<open>next_ids\<close> have string keys already and are written
  and read back as they are, and \<open>None\<close>, booleans, integers, floats and strings are read
  back as the values written. \<open>json.load\<close> builds each dictionary from the pairs of the
  object in file order: a repeated key keeps its first position and its last value.
\<close>

definition dict_of_pairs :: "('k \<times> 'v) list \<Rightarrow> ('k \<times> 'v) list" where
  "dict_of_pairs ps = foldl (\<lambda>acc (k, v). AList.update k v acc) [] ps"

definition dump_collection :: "collection \<Rightarrow> (string \<times> pydict) list" where
  "dump_collection c = map (\<lambda>(k, r). (key_str k, r)) c"

definition load_collection :: "(string \<times> pydict) list \<Rightarrow> collection" where
  "load_collection ps = dict_of_pairs (map (\<lambda>(k, r). (KStr k, r)) ps)"

definition json_dump :: "document \<Rightarrow> json_document" where
  "json_dump d =
     \<lparr> json_users = dump_collection (users d),
       json_patients = dump_collection (patients d),
       json_doctors = dump_collection (doctors d),
       json_beds = dump_collection (beds d),
       json_medicines = dump_collection (medicines d),
       json_next_ids = next_ids d \<rparr>"

definition json_load :: "json_document \<Rightarrow> document" where
  "json_load j =
     \<lparr> users = load_collection (json_users j),
       patients = load_collection (json_patients j),
       doctors = load_collection (json_doctors j),
       beds = load_collection (json_beds j),
       medicines = load_collection (json_medicines j),
       next_ids = dict_of_pairs (json_next_ids j) \<rparr>"

definition empty_document :: document where
  "empty_document =
     \<lparr> users = [], patients = [], doctors = [], beds = [], medicines = [],
       next_ids = [(''user'', 1), (''patient'', 1), (''doctor'', 1), (''bed'', 1), (''medicine'', 1)] \<rparr>"

definition load_data :: "json_document option \<Rightarrow> document" where
  "load_data file = (case file of Some j \<Rightarrow> json_load j | None \<Rightarrow> empty_document)"

definition save_data :: "system \<Rightarrow> system" where
  "save_data s = s\<lparr>disk := Some (json_dump (data s)), saves := Suc (saves s)\<rparr>"

text \<open>\<open>__init__\<close>: a new object on the given file content.\<close>

definition init :: "json_document option \<Rightarrow> system" where
  "init file = \<lparr> data = load_data file, disk = file, saves = 0, issued = [] \<rparr>"

subsection \<open>Passwords and identifiers\<close>

text \<open>
  \<open>hash_password\<close> is \<open>hashlib.sha256(password.encode()).hexdigest()\<close>; the digest
  function is the parameter \<open>h\<close>.
\<close>

definition verify_password :: "(string \<Rightarrow> string) \<Rightarrow> string \<Rightarrow> pyval \<Rightarrow> bool" where
  "verify_password h password hashed = (PStr (h password) = hashed)"

definition get_next_id :: "string \<Rightarrow> system \<Rightarrow> (error + int) \<times> system" where
  "get_next_id entity_type s =
     (case map_of (next_ids (data s)) entity_type of
        None \<Rightarrow> (Inl KeyError, s)
      | Some next_id \<Rightarrow>
          (Inr next_id,
           s\<lparr>data := (data s)\<lparr>next_ids := AList.update entity_type (next_id + 1) (next_ids (data s))\<rparr>,
             issued := issued s @ [(entity_type, next_id)]\<rparr>))"

subsection \<open>Users\<close>

definition register_user ::
  "(string \<Rightarrow> string) \<Rightarrow> string \<Rightarrow> string \<Rightarrow> string \<Rightarrow> string \<Rightarrow> string \<Rightarrow> string \<Rightarrow> string \<Rightarrow> string
     \<Rightarrow> system \<Rightarrow> (error + int) \<times> system" where
  "register_user h now username password role first_name last_name email phone s =
     (case map_of (users (data s)) (KStr username) of
        Some existing \<Rightarrow> (Inl DuplicateUsername, s)
      | None \<Rightarrow>
          (case get_next_id ''user'' s of
             (Inl e, s1) \<Rightarrow> (Inl e, s1)
           | (Inr user_id, s1) \<Rightarrow>
               (let user =
                      [(''id'', PInt user_id),
                       (''username'', PStr username),
                       (''password_hash'', PStr (h password)),
                       (''role'', PStr role),
                       (''first_name'', PStr first_name),
                       (''last_name'', PStr last_name),
                       (''email'', PStr email),
                       (''phone'', PStr phone),
                       (''is_active'', PBool True),
                       (''created_at'', PStr now)];
                    s2 = s1\<lparr>data := (data s1)\<lparr>users := AList.update (KStr username) user (users (data s1))\<rparr>\<rparr>
                in (Inr user_id, save_data s2))))"

definition login_user :: "(string \<Rightarrow> string) \<Rightarrow> string \<Rightarrow> string \<Rightarrow> system \<Rightarrow> error + pydict" where
  "login_user h username password s =
     (case map_of (users (data s)) (KStr username) of
        None \<Rightarrow> Inl (NotFound User)
      | Some user \<Rightarrow>
          (case map_of user ''password_hash'' of
             None \<Rightarrow> Inl KeyError
           | Some hashed \<Rightarrow>
               if \<not> verify_password h password hashed then Inl InvalidCredentials
               else
                 (case map_of user ''is_active'' of
                    None \<Rightarrow> Inl KeyError
                  | Some active \<Rightarrow> if \<not> truthy active then Inl AccountDisabled else Inr user)))"

definition get_user :: "string \<Rightarrow> system \<Rightarrow> pydict option" where
  "get_user username s = map_of (users (data s)) (KStr username)"

subsection \<open>Patients\<close>

definition add_patient ::
  "string \<Rightarrow> string \<Rightarrow> string \<Rightarrow> int \<Rightarrow> string \<Rightarrow> string \<Rightarrow> string \<Rightarrow> string \<Rightarrow> string
     \<Rightarrow> system \<Rightarrow> (error + pydict) \<times> system" where
  "add_patient now first_name last_name age gender phone email medical_history allergies s =
     (case get_next_id ''patient'' s of
        (Inl e, s1) \<Rightarrow> (Inl e, s1)
      | (Inr patient_id, s1) \<Rightarrow>
          (let patient =
                 [(''id'', PInt patient_id),
                  (''first_name'', PStr first_name),
                  (''last_name'', PStr last_name),
                  (''age'', PInt age),
                  (''gender'', PStr gender),
                  (''phone'', PStr phone),
                  (''email'', PStr email),
                  (''medical_history'', PStr medical_history),
                  (''allergies'', PStr allergies),
                  (''is_active'', PBool True),
                  (''created_at'', PStr now)];
               s2 = s1\<lparr>data := (data s1)\<lparr>patients := AList.update (KInt patient_id) patient (patients (data s1))\<rparr>\<rparr>
           in (Inr patient, save_data s2)))"

definition get_patient :: "int \<Rightarrow> system \<Rightarrow> pydict option" where
  "get_patient patient_id s = map_of (patients (data s)) (KInt patient_id)"



text \<open>
  The loop of \<open>update_patient\<close> and \<open>update_doctor\<close> over \<open>kwargs.items()\<close>, in the
  order the keyword arguments were given.
\<close>

fun apply_kwargs :: "pydict \<Rightarrow> (string \<times> pyval) list \<Rightarrow> pydict" where
  "apply_kwargs r [] = r"
| "apply_kwargs r ((key, val) # kwargs) =
     apply_kwargs
       (if key \<in> set (map fst r) \<and> key \<notin> set [''id'', ''created_at'']
        then AList.update key val r else r)
       kwargs"

definition update_patient :: "int \<Rightarrow> (string \<times> pyval) list \<Rightarrow> system \<Rightarrow> (error + pydict) \<times> system" where
  "update_patient patient_id kwargs s =
     (case map_of (patients (data s)) (KInt patient_id) of
        None \<Rightarrow> (Inl (NotFound Patient), s)
      | Some patient \<Rightarrow>
          (let patient' = apply_kwargs patient kwargs;
               s1 = s\<lparr>data := (data s)\<lparr>patients := AList.update (KInt patient_id) patient' (patients (data s))\<rparr>\<rparr>
           in (Inr patient', save_data s1)))"

definition delete_patient :: "int \<Rightarrow> system \<Rightarrow> (error + unit) \<times> system" where
  "delete_patient patient_id s =
     (case map_of (patients (data s)) (KInt patient_id) of
        None \<Rightarrow> (Inl (NotFound Patient), s)
      | Some patient \<Rightarrow>
          (let patient' = AList.update ''is_active'' (PBool False) patient;
               s1 = s\<lparr>data := (data s)\<lparr>patients := AList.update (KInt patient_id) patient' (patients (data s))\<rparr>\<rparr>
           in (Inr (), save_data s1)))"

subsection \<open>Doctors\<close>

definition add_doctor ::
  "string \<Rightarrow> string \<Rightarrow> string \<Rightarrow> string \<Rightarrow> string \<Rightarrow> string \<Rightarrow> string \<Rightarrow> string
     \<Rightarrow> system \<Rightarrow> (error + pydict) \<times> system" where
  "add_doctor now first_name last_name specialization phone email shift license_number s =
     (case get_next_id ''doctor'' s of
        (Inl e, s1) \<Rightarrow> (Inl e, s1)
      | (Inr doctor_id, s1) \<Rightarrow>
          (let doctor =
                 [(''id'', PInt doctor_id),
                  (''first_name'', PStr first_name),
                  (''last_name'', PStr last_name),
                  (''specialization'', PStr specialization),
                  (''phone'', PStr phone),
                  (''email'', PStr email),
                  (''shift'', PStr shift),
                  (''license_number'', PStr license_number),
                  (''is_available'', PBool True),
                  (''created_at'', PStr now)];
               s2 = s1\<lparr>data := (data s1)\<lparr>doctors := AList.update (KInt doctor_id) doctor (doctors (data s1))\<rparr>\<rparr>
           in (Inr doctor, save_data s2)))"

definition get_doctor :: "int \<Rightarrow> system \<Rightarrow> pydict option" where
  "get_doctor doctor_id s = map_of (doctors (data s)) (KInt doctor_id)"

definition update_doctor :: "int \<Rightarrow> (string \<times> pyval) list \<Rightarrow> system \<Rightarrow> (error + pydict) \<times> system" where
  "update_doctor doctor_id kwargs s =
     (case map_of (doctors (data s)) (KInt doctor_id) of
        None \<Rightarrow> (Inl (NotFound Doctor), s)
      | Some doctor \<Rightarrow>
          (let doctor' = apply_kwargs doctor kwargs;
               s1 = s\<lparr>data := (data s)\<lparr>doctors := AList.update (KInt doctor_id) doctor' (doctors (data s))\<rparr>\<rparr>
           in (Inr doctor', save_data s1)))"

subsection \<open>Beds\<close>

definition add_bed :: "string \<Rightarrow> string \<Rightarrow> string \<Rightarrow> string \<Rightarrow> system \<Rightarrow> (error + pydict) \<times> system" where
  "add_bed now bed_number bed_type ward s =
     (case get_next_id ''bed'' s of
        (Inl e, s1) \<Rightarrow> (Inl e, s1)
      | (Inr bed_id, s1) \<Rightarrow>
          (let bed =
                 [(''id'', PInt bed_id),
                  (''bed_number'', PStr bed_number),
                  (''bed_type'', PStr bed_type),
                  (''status'', PStr ''available''),
                  (''ward'', PStr ward),
                  (''patient_id'', PNone),
                  (''assigned_at'', PNone),
                  (''created_at'', PStr now)];
               s2 = s1\<lparr>data := (data s1)\<lparr>beds := AList.update (KInt bed_id) bed (beds (data s1))\<rparr>\<rparr>
           in (Inr bed, save_data s2)))"

definition get_bed :: "int \<Rightarrow> system \<Rightarrow> pydict option" where
  "get_bed bed_id s = map_of (beds (data s)) (KInt bed_id)"

definition assign_bed :: "string \<Rightarrow> int \<Rightarrow> int \<Rightarrow> system \<Rightarrow> (error + pydict) \<times> system" where
  "assign_bed now bed_id patient_id s =
     (case map_of (beds (data s)) (KInt bed_id) of
        None \<Rightarrow> (Inl (NotFound Bed), s)
      | Some bed \<Rightarrow>
          (case map_of (patients (data s)) (KInt patient_id) of
             None \<Rightarrow> (Inl (NotFound Patient), s)
           | Some patient \<Rightarrow>
               (case map_of bed ''status'' of
                  None \<Rightarrow> (Inl KeyError, s)
                | Some status \<Rightarrow>
                    if status \<noteq> PStr ''available'' then (Inl BedNotAvailable, s)
                    else
                      (let bed' =
                             AList.update ''assigned_at'' (PStr now)
                               (AList.update ''patient_id'' (PInt patient_id)
                                  (AList.update ''status'' (PStr ''occupied'') bed));
                           s1 = s\<lparr>data := (data s)\<lparr>beds := AList.update (KInt bed_id) bed' (beds (data s))\<rparr>\<rparr>
                       in (Inr bed', save_data s1)))))"

definition release_bed :: "int \<Rightarrow> system \<Rightarrow> (error + pydict) \<times> system" where
  "release_bed bed_id s =
     (case map_of (beds (data s)) (KInt bed_id) of
        None \<Rightarrow> (Inl (NotFound Bed), s)
      | Some bed \<Rightarrow>
          (case map_of bed ''status'' of
             None \<Rightarrow> (Inl KeyError, s)
           | Some status \<Rightarrow>
               if status \<noteq> PStr ''occupied'' then (Inl BedNotOccupied, s)
               else
                 (let bed' =
                        AList.update ''assigned_at'' PNone
                          (AList.update ''patient_id'' PNone
                             (AList.update ''status'' (PStr ''available'') bed));
                      s1 = s\<lparr>data := (data s)\<lparr>beds := AList.update (KInt bed_id) bed' (beds (data s))\<rparr>\<rparr>
                  in (Inr bed', save_data s1))))"

subsection \<open>Medicines\<close>

definition add_medicine ::
  "string \<Rightarrow> string \<Rightarrow> string \<Rightarrow> int \<Rightarrow> real \<Rightarrow> string \<Rightarrow> int \<Rightarrow> system \<Rightarrow> (error + pydict) \<times> system" where
  "add_medicine now name expiry_date quantity unit_price category minimum_stock_level s =
     (case get_next_id ''medicine'' s of
        (Inl e, s1) \<Rightarrow> (Inl e, s1)
      | (Inr medicine_id, s1) \<Rightarrow>
          (let medicine =
                 [(''id'', PInt medicine_id),
                  (''name'', PStr name),
                  (''expiry_date'', PStr expiry_date),
                  (''quantity'', PInt quantity),
                  (''unit_price'', PFloat unit_price),
                  (''category'', PStr category),
                  (''minimum_stock_level'', PInt minimum_stock_level),
                  (''created_at'', PStr now)];
               s2 = s1\<lparr>data := (data s1)\<lparr>medicines := AList.update (KInt medicine_id) medicine (medicines (data s1))\<rparr>\<rparr>
           in (Inr medicine, save_data s2)))"

definition get_medicine :: "int \<Rightarrow> system \<Rightarrow> pydict option" where
  "get_medicine medicine_id s = map_of (medicines (data s)) (KInt medicine_id)"

text \<open>The condition \<open>m["expiry_date"] <= today\<close> of \<open>get_expired_medicines\<close>.\<close>

definition expired :: "string \<Rightarrow> pydict \<Rightarrow> error + bool" where
  "expired today m = (case map_of m ''expiry_date'' of None \<Rightarrow> Inl KeyError | Some e \<Rightarrow> le_str e today)"

definition get_expired_medicines :: "date \<Rightarrow> system \<Rightarrow> error + pydict list" where
  "get_expired_medicines current s =
     (let today = isoformat current
      in comprehension (expired today) (map snd (medicines (data s))))"

definition update_medicine_stock :: "int \<Rightarrow> int \<Rightarrow> system \<Rightarrow> (error + unit) \<times> system" where
  "update_medicine_stock medicine_id new_quantity s =
     (case map_of (medicines (data s)) (KInt medicine_id) of
        None \<Rightarrow> (Inl (NotFound Medicine), s)
      | Some medicine \<Rightarrow>
          (let medicine' = AList.update ''quantity'' (PInt new_quantity) medicine;
               s1 = s\<lparr>data := (data s)\<lparr>medicines := AList.update (KInt medicine_id) medicine' (medicines (data s))\<rparr>\<rparr>
           in (Inr (), save_data s1)))"

subsection \<open>Sequences of calls\<close>

text \<open>
  One call of a method that can change the object, with its arguments (a time stamp
  first where the method reads the clock). \<open>Restart\<close> is a new object on the file the
  old one left.
\<close>

datatype command =
    GetNextId string
  | RegisterUser string string string string string string string string
  | AddPatient string string string int string string string string string
  | UpdatePatient int "(string \<times> pyval) list"
  | DeletePatient int
  | AddDoctor string string string string string string string string
  | UpdateDoctor int "(string \<times> pyval) list"
  | AddBed string string string string
  | AssignBed string int int
  | ReleaseBed int
  | AddMedicine string string string int real string int
  | UpdateMedicineStock int int

fun exec :: "(string \<Rightarrow> string) \<Rightarrow> command \<Rightarrow> system \<Rightarrow> system" where
  "exec h (GetNextId k) s = snd (get_next_id k s)"
| "exec h (RegisterUser now u p r f l e ph) s = snd (register_user h now u p r f l e ph s)"
| "exec h (AddPatient now f l a g ph e mh al) s = snd (add_patient now f l a g ph e mh al s)"
| "exec h (UpdatePatient i kw) s = snd (update_patient i kw s)"
| "exec h (DeletePatient i) s = snd (delete_patient i s)"
| "exec h (AddDoctor now f l sp ph e sh li) s = snd (add_doctor now f l sp ph e sh li s)"
| "exec h (UpdateDoctor i kw) s = snd (update_doctor i kw s)"
| "exec h (AddBed now n t w) s = snd (add_bed now n t w s)"
| "exec h (AssignBed now b p) s = snd (assign_bed now b p s)"
| "exec h (ReleaseBed b) s = snd (release_bed b s)"
| "exec h (AddMedicine now n x q u c m) s = snd (add_medicine now n x q u c m s)"
| "exec h (UpdateMedicineStock i q) s = snd (update_medicine_stock i q s)"

text \<open>The calls \<open>cs\<close>, in order, on one object.\<close>

definition run :: "(string \<Rightarrow> string) \<Rightarrow> command list \<Rightarrow> system \<Rightarrow> system" where
  "run h cs s = foldl (\<lambda>t c. exec h c t) s cs"

text \<open>
  The states of a store: a new object on no file, any call on a reachable object, and a
  new object on the file a reachable object has written.
\<close>

inductive reachable :: "(string \<Rightarrow> string) \<Rightarrow> system \<Rightarrow> bool" for h where
  fresh: "reachable h (init None)"
| call: "reachable h s \<Longrightarrow> reachable h (exec h c s)"
| restart: "reachable h s \<Longrightarrow> reachable h (init (disk s))"


subsection \<open>Example stores\<close>

text \<open>
  Small stores built with the calls of \<open>seed_sample_data\<close>, on a new object with no
  file; \<open>rev\<close> stands for the digest. \<open>example_file\<close> is a data file that holds a
  deactivated account.
\<close>

definition example_users :: system where
  "example_users =
     run rev
       [RegisterUser ''2024-01-01T09:00:00'' ''admin'' ''admin123'' ''admin'' ''Admin'' ''User''
          ''admin@hospital.com'' []]
       (init None)"

definition example_ward :: system where
  "example_ward =
     run rev
       [AddPatient ''2024-01-01T09:00:00'' ''Alice'' ''Johnson'' 35 ''Female'' ''123-456-7890''
          ''alice@email.com'' ''Diabetes'' ''Penicillin'',
        AddPatient ''2024-01-01T09:00:01'' ''Bob'' ''Wilson'' 42 ''Male'' ''123-456-7891''
          ''bob@email.com'' ''Asthma'' ''None'',
        AddBed ''2024-01-01T09:00:02'' ''G001'' ''general'' ''Ward A'',
        AddDoctor ''2024-01-01T09:00:03'' ''Dr. Sarah'' ''Brown'' ''Cardiology'' ''123-456-7801''
          ''sarah@hospital.com'' ''Morning'' ''DOC001'']
       (init None)"

definition example_pharmacy :: system where
  "example_pharmacy =
     run rev
       [AddMedicine ''2024-01-01T09:00:00'' ''Paracetamol'' ''2025-12-31'' 100 5.50 ''Painkiller'' 20,
        AddMedicine ''2024-01-01T09:00:01'' ''Amoxicillin'' ''2024-06-30'' 5 15.75 ''Antibiotic'' 10]
       (init None)"

definition example_file :: json_document where
  "example_file =
     \<lparr> json_users =
         [(''admin'', [(''id'', PInt 1), (''username'', PStr ''admin''),
             (''password_hash'', PStr (rev ''admin123'')), (''is_active'', PBool True)]),
          (''former'', [(''id'', PInt 2), (''username'', PStr ''former''),
             (''password_hash'', PStr (rev ''secret'')), (''is_active'', PBool False)])],
       json_patients = [], json_doctors = [], json_beds = [], json_medicines = [],
       json_next_ids =
         [(''user'', 3), (''patient'', 1), (''doctor'', 1), (''bed'', 1), (''medicine'', 1)] \<rparr>"

subsection \<open>Predicates of the statements\<close>

text \<open>
  The medicine record has a string under \<open>expiry_date\<close> (as \<open>add_medicine\<close> stores
  it), and that string is at most \<open>t\<close>.
\<close>

definition expiry_le :: "string \<Rightarrow> pydict \<Rightarrow> bool" where
  "expiry_le t m = (case map_of m ''expiry_date'' of Some (PStr e) \<Rightarrow> e \<le> t | _ \<Rightarrow> False)"

definition has_expiry_string :: "pydict \<Rightarrow> bool" where
  "has_expiry_string m = (case map_of m ''expiry_date'' of Some (PStr e) \<Rightarrow> True | _ \<Rightarrow> False)"

subsection \<open>Invariants\<close>

text \<open>
  A field of a record is set when it is present and not \<open>None\<close>. A bed record is
  consistent when these three conditions are equivalent: the status is occupied,
  \<open>patient_id\<close> is set, \<open>assigned_at\<close> is set. \<open>file_beds_consistent\<close> says the same
  of the beds in the data file.
\<close>

definition is_set :: "pydict \<Rightarrow> string \<Rightarrow> bool" where
  "is_set b k = (case map_of b k of Some v \<Rightarrow> v \<noteq> PNone | None \<Rightarrow> False)"

definition bed_consistent :: "pydict \<Rightarrow> bool" where
  "bed_consistent b =
     ((map_of b ''status'' = Some (PStr ''occupied'')) = is_set b ''patient_id''
      \<and> is_set b ''patient_id'' = is_set b ''assigned_at'')"

definition beds_consistent :: "system \<Rightarrow> bool" where
  "beds_consistent s = (\<forall>b \<in> set (map snd (beds (data s))). bed_consistent b)"

definition file_beds_consistent :: "system \<Rightarrow> bool" where
  "file_beds_consistent s =
     (case disk s of None \<Rightarrow> True | Some j \<Rightarrow> \<forall>b \<in> set (map snd (json_beds j)). bed_consistent b)"


text \<open>A user record has the two fields \<open>login_user\<close> reads.\<close>

definition user_complete :: "pydict \<Rightarrow> bool" where
  "user_complete r = (map_of r ''password_hash'' \<noteq> None \<and> map_of r ''is_active'' \<noteq> None)"


section \<open>Properties\<close>

subsection \<open>Unfolding the operations\<close>

lemmas op_defs =
  register_user_def add_patient_def update_patient_def delete_patient_def
  add_doctor_def update_doctor_def add_bed_def assign_bed_def release_bed_def
  add_medicine_def update_medicine_stock_def get_next_id_def save_data_def

lemmas io_defs =
  init_def load_data_def empty_document_def json_dump_def json_load_def
  dump_collection_def load_collection_def dict_of_pairs_def

lemmas str_defs = str_int_def str_nat.simps digit_char_def isoformat_def zfill_def

subsection \<open>The example stores, evaluated\<close>

lemma example_users_data:
  "data example_users =
     \<lparr> users = [(KStr ''admin'',
          [(''id'', PInt 1), (''username'', PStr ''admin''), (''password_hash'', PStr ''321nimda''),
           (''role'', PStr ''admin''), (''first_name'', PStr ''Admin''), (''last_name'', PStr ''User''),
           (''email'', PStr ''admin@hospital.com''), (''phone'', PStr []),
           (''is_active'', PBool True), (''created_at'', PStr ''2024-01-01T09:00:00'')])],
       patients = [], doctors = [], beds = [], medicines = [],
       next_ids = [(''user'', 2), (''patient'', 1), (''doctor'', 1), (''bed'', 1), (''medicine'', 1)] \<rparr>"
  by (simp add: example_users_def run_def op_defs io_defs str_defs Let_def)

lemma example_ward_data:
  "data example_ward =
     \<lparr> users = [],
       patients =
         [(KInt 1,
           [(''id'', PInt 1), (''first_name'', PStr ''Alice''), (''last_name'', PStr ''Johnson''),
            (''age'', PInt 35), (''gender'', PStr ''Female''), (''phone'', PStr ''123-456-7890''),
            (''email'', PStr ''alice@email.com''), (''medical_history'', PStr ''Diabetes''),
            (''allergies'', PStr ''Penicillin''), (''is_active'', PBool True),
            (''created_at'', PStr ''2024-01-01T09:00:00'')]),
          (KInt 2,
           [(''id'', PInt 2), (''first_name'', PStr ''Bob''), (''last_name'', PStr ''Wilson''),
            (''age'', PInt 42), (''gender'', PStr ''Male''), (''phone'', PStr ''123-456-7891''),
            (''email'', PStr ''bob@email.com''), (''medical_history'', PStr ''Asthma''),
            (''allergies'', PStr ''None''), (''is_active'', PBool True),
            (''created_at'', PStr ''2024-01-01T09:00:01'')])],
       doctors =
         [(KInt 1,
           [(''id'', PInt 1), (''first_name'', PStr ''Dr. Sarah''), (''last_name'', PStr ''Brown''),
            (''specialization'', PStr ''Cardiology''), (''phone'', PStr ''123-456-7801''),
            (''email'', PStr ''sarah@hospital.com''), (''shift'', PStr ''Morning''),
            (''license_number'', PStr ''DOC001''), (''is_available'', PBool True),
            (''created_at'', PStr ''2024-01-01T09:00:03'')])],
       beds =
         [(KInt 1,
           [(''id'', PInt 1), (''bed_number'', PStr ''G001''), (''bed_type'', PStr ''general''),
            (''status'', PStr ''available''), (''ward'', PStr ''Ward A''), (''patient_id'', PNone),
            (''assigned_at'', PNone), (''created_at'', PStr ''2024-01-01T09:00:02'')])],
       medicines = [],
       next_ids = [(''user'', 1), (''patient'', 3), (''doctor'', 2), (''bed'', 2), (''medicine'', 1)] \<rparr>"
  by (simp add: example_ward_def run_def op_defs io_defs str_defs Let_def)

lemma example_pharmacy_medicines:
  "medicines (data example_pharmacy) =
     [(KInt 1,
       [(''id'', PInt 1), (''name'', PStr ''Paracetamol''), (''expiry_date'', PStr ''2025-12-31''),
        (''quantity'', PInt 100), (''unit_price'', PFloat 5.50), (''category'', PStr ''Painkiller''),
        (''minimum_stock_level'', PInt 20), (''created_at'', PStr ''2024-01-01T09:00:00'')]),
      (KInt 2,
       [(''id'', PInt 2), (''name'', PStr ''Amoxicillin''), (''expiry_date'', PStr ''2024-06-30''),
        (''quantity'', PInt 5), (''unit_price'', PFloat 15.75), (''category'', PStr ''Antibiotic''),
        (''minimum_stock_level'', PInt 10), (''created_at'', PStr ''2024-01-01T09:00:01'')])]"
  by (simp add: example_pharmacy_def run_def op_defs io_defs str_defs Let_def)

subsection \<open>Association lists, the data file and sequences of calls\<close>

lemma set_update_subset: "set (AList.update k v al) \<subseteq> insert (k, v) (set al)"
  by (induction al) auto

lemma set_dict_of_pairs_aux:
  "set (foldl (\<lambda>acc (k, v). AList.update k v acc) acc ps) \<subseteq> set acc \<union> set ps"
proof (induction ps arbitrary: acc)
  case Nil
  then show ?case by simp
next
  case (Cons a ps)
  obtain k v where a: "a = (k, v)" by (cases a)
  have "set (foldl (\<lambda>acc (k, v). AList.update k v acc) (AList.update k v acc) ps)
     \<subseteq> set (AList.update k v acc) \<union> set ps"
    by (rule Cons.IH)
  with set_update_subset [of k v acc] show ?case
    unfolding a by auto
qed

lemma set_dict_of_pairs: "set (dict_of_pairs ps) \<subseteq> set ps"
  using set_dict_of_pairs_aux [of "[]" ps] by (simp add: dict_of_pairs_def)

lemma values_load_collection: "snd ` set (load_collection ps) \<subseteq> snd ` set ps"
  using set_dict_of_pairs [of "map (\<lambda>(k, r). (KStr k, r)) ps"]
  by (force simp add: load_collection_def)

lemma values_dump_collection: "map snd (dump_collection c) = map snd c"
  by (simp add: dump_collection_def comp_def case_prod_unfold)



lemma reachable_run_aux: "reachable h s \<Longrightarrow> reachable h (foldl (\<lambda>t c. exec h c t) s cs)"
  by (induction cs arbitrary: s) (simp_all add: reachable.call)

lemma reachable_run: "reachable h s \<Longrightarrow> reachable h (run h cs s)"
  by (simp add: run_def reachable_run_aux)

lemma call_disk:
  "disk (snd (get_next_id k s)) = disk s"
  "disk (snd (register_user h now u p r f l e ph s)) = disk s
     \<or> disk (snd (register_user h now u p r f l e ph s))
         = Some (json_dump (data (snd (register_user h now u p r f l e ph s))))"
  "disk (snd (add_patient now f l a g ph e mh al s)) = disk s
     \<or> disk (snd (add_patient now f l a g ph e mh al s))
         = Some (json_dump (data (snd (add_patient now f l a g ph e mh al s))))"
  "disk (snd (update_patient i kw s)) = disk s
     \<or> disk (snd (update_patient i kw s)) = Some (json_dump (data (snd (update_patient i kw s))))"
  "disk (snd (delete_patient i s)) = disk s
     \<or> disk (snd (delete_patient i s)) = Some (json_dump (data (snd (delete_patient i s))))"
  "disk (snd (add_doctor now f l sp ph e sh li s)) = disk s
     \<or> disk (snd (add_doctor now f l sp ph e sh li s))
         = Some (json_dump (data (snd (add_doctor now f l sp ph e sh li s))))"
  "disk (snd (update_doctor i kw s)) = disk s
     \<or> disk (snd (update_doctor i kw s)) = Some (json_dump (data (snd (update_doctor i kw s))))"
  "disk (snd (add_bed now n t w s)) = disk s
     \<or> disk (snd (add_bed now n t w s)) = Some (json_dump (data (snd (add_bed now n t w s))))"
  "disk (snd (assign_bed now b pid s)) = disk s
     \<or> disk (snd (assign_bed now b pid s)) = Some (json_dump (data (snd (assign_bed now b pid s))))"
  "disk (snd (release_bed b s)) = disk s
     \<or> disk (snd (release_bed b s)) = Some (json_dump (data (snd (release_bed b s))))"
  "disk (snd (add_medicine now n x q up c m s)) = disk s
     \<or> disk (snd (add_medicine now n x q up c m s))
         = Some (json_dump (data (snd (add_medicine now n x q up c m s))))"
  "disk (snd (update_medicine_stock i q s)) = disk s
     \<or> disk (snd (update_medicine_stock i q s))
         = Some (json_dump (data (snd (update_medicine_stock i q s))))"
  by (simp_all add: op_defs Let_def split: option.splits)

lemma exec_disk:
  "disk (exec h c s) = disk s \<or> disk (exec h c s) = Some (json_dump (data (exec h c s)))"
  by (cases c) (simp_all add: call_disk)

subsection \<open>Failure results change nothing\<close>

lemma get_next_id_failure:
  "fst (get_next_id k s) = Inl e \<Longrightarrow> snd (get_next_id k s) = s"
  by (simp add: get_next_id_def split: option.splits)

lemma register_user_failure:
  "fst (register_user h now u p role f l e ph s) = Inl err \<Longrightarrow>
   snd (register_user h now u p role f l e ph s) = s"
  unfolding register_user_def
  by (cases "get_next_id ''user'' s"; cases "fst (get_next_id ''user'' s)")
     (use get_next_id_failure [of "''user''" s] in \<open>auto simp add: Let_def split: option.splits\<close>)

lemma update_patient_failure:
  "fst (update_patient i kw s) = Inl err \<Longrightarrow> snd (update_patient i kw s) = s"
  by (simp add: update_patient_def Let_def split: option.splits)

lemma delete_patient_failure:
  "fst (delete_patient i s) = Inl err \<Longrightarrow> snd (delete_patient i s) = s"
  by (simp add: delete_patient_def Let_def split: option.splits)

lemma update_doctor_failure:
  "fst (update_doctor i kw s) = Inl err \<Longrightarrow> snd (update_doctor i kw s) = s"
  by (simp add: update_doctor_def Let_def split: option.splits)

lemma assign_bed_failure:
  "fst (assign_bed now b pid s) = Inl err \<Longrightarrow> snd (assign_bed now b pid s) = s"
  by (simp add: assign_bed_def Let_def split: option.splits if_splits)

lemma release_bed_failure:
  "fst (release_bed b s) = Inl err \<Longrightarrow> snd (release_bed b s) = s"
  by (simp add: release_bed_def Let_def split: option.splits if_splits)

lemma update_medicine_stock_failure:
  "fst (update_medicine_stock i q s) = Inl err \<Longrightarrow> snd (update_medicine_stock i q s) = s"
  by (simp add: update_medicine_stock_def Let_def split: option.splits)

text \<open>
  Claim C10. Whenever \<open>register_user\<close>, \<open>update_patient\<close>, \<open>delete_patient\<close>,
  \<open>update_doctor\<close>, \<open>assign_bed\<close>, \<open>release_bed\<close> or \<open>update_medicine_stock\<close>
  returns a failure, the whole object is as before the call: the five collections, the
  counters, the file, and the number of calls of \<open>save_data\<close> (so the file was not
  written).
\<close>

theorem failure_leaves_store_unchanged:
  "(fst (register_user h now u p role f l e ph s) = Inl err
      \<longrightarrow> snd (register_user h now u p role f l e ph s) = s)
 \<and> (fst (update_patient i kw s) = Inl err \<longrightarrow> snd (update_patient i kw s) = s)
 \<and> (fst (delete_patient i s) = Inl err \<longrightarrow> snd (delete_patient i s) = s)
 \<and> (fst (update_doctor i kw s) = Inl err \<longrightarrow> snd (update_doctor i kw s) = s)
 \<and> (fst (assign_bed now b pid s) = Inl err \<longrightarrow> snd (assign_bed now b pid s) = s)
 \<and> (fst (release_bed b s) = Inl err \<longrightarrow> snd (release_bed b s) = s)
 \<and> (fst (update_medicine_stock i q s) = Inl err \<longrightarrow> snd (update_medicine_stock i q s) = s)"
  by (intro conjI impI;
      erule register_user_failure update_patient_failure delete_patient_failure
        update_doctor_failure assign_bed_failure release_bed_failure
        update_medicine_stock_failure)

theorem failure_leaves_store_unchanged_witness:
  "fst (update_patient 7 [(''age'', PInt 36)] (init None)) = Inl (NotFound Patient)
 \<and> snd (update_patient 7 [(''age'', PInt 36)] (init None)) = init None
 \<and> saves (snd (update_patient 7 [(''age'', PInt 36)] (init None))) = 0"
  using failure_leaves_store_unchanged
    [of rev "''t''" "''u''" "''p''" "''r''" "''f''" "''l''" "''e''" "''ph''" "init None"
        "NotFound Patient" 7 "[(''age'', PInt 36)]" 1 1 1]
  by (simp add: update_patient_def io_defs)

subsection \<open>Users\<close>

text \<open>
  Claim C2. When the store holds a user under the username \<open>u\<close>, \<open>register_user\<close>
  with that username fails with \<open>DuplicateUsername\<close>, and the store, with the record
  under \<open>u\<close>, is as before.
\<close>

theorem register_user_duplicate:
  "get_user u s = Some r \<Longrightarrow>
     fst (register_user h now u p role f l e ph s) = Inl DuplicateUsername
     \<and> snd (register_user h now u p role f l e ph s) = s
     \<and> get_user u (snd (register_user h now u p role f l e ph s)) = Some r"
  by (simp add: get_user_def register_user_def)

theorem register_user_duplicate_witness:
  "get_user ''admin'' example_users =
     Some [(''id'', PInt 1), (''username'', PStr ''admin''), (''password_hash'', PStr ''321nimda''),
           (''role'', PStr ''admin''), (''first_name'', PStr ''Admin''), (''last_name'', PStr ''User''),
           (''email'', PStr ''admin@hospital.com''), (''phone'', PStr []),
           (''is_active'', PBool True), (''created_at'', PStr ''2024-01-01T09:00:00'')]
   \<and> fst (register_user rev ''2024-02-02T10:00:00'' ''admin'' ''other'' ''doctor'' ''Eve'' ''Moss''
            [] [] example_users)
       = Inl DuplicateUsername
   \<and> snd (register_user rev ''2024-02-02T10:00:00'' ''admin'' ''other'' ''doctor'' ''Eve'' ''Moss''
            [] [] example_users)
       = example_users"
  using register_user_duplicate
    [where u = "''admin''" and s = example_users and h = rev
      and now = "''2024-02-02T10:00:00''" and p = "''other''" and role = "''doctor''"
      and f = "''Eve''" and l = "''Moss''" and e = "[]" and ph = "[]"]
  by (simp add: get_user_def example_users_data)

lemma call_users:
  "users (data (snd (get_next_id k s))) = users (data s)"
  "users (data (snd (add_patient now f l a g ph e mh al s))) = users (data s)"
  "users (data (snd (update_patient i kw s))) = users (data s)"
  "users (data (snd (delete_patient i s))) = users (data s)"
  "users (data (snd (add_doctor now f l sp ph e sh li s))) = users (data s)"
  "users (data (snd (update_doctor i kw s))) = users (data s)"
  "users (data (snd (add_bed now n t w s))) = users (data s)"
  "users (data (snd (assign_bed now b pid s))) = users (data s)"
  "users (data (snd (release_bed b s))) = users (data s)"
  "users (data (snd (add_medicine now n x q up c m s))) = users (data s)"
  "users (data (snd (update_medicine_stock i q s))) = users (data s)"
  by (simp_all add: op_defs Let_def split: option.splits)

lemma register_user_users:
  "users (data (snd (register_user h now u p r f l e ph s))) = users (data s)
   \<or> (\<exists>i. users (data (snd (register_user h now u p r f l e ph s))) =
         AList.update (KStr u)
           [(''id'', PInt i), (''username'', PStr u), (''password_hash'', PStr (h p)),
            (''role'', PStr r), (''first_name'', PStr f), (''last_name'', PStr l),
            (''email'', PStr e), (''phone'', PStr ph), (''is_active'', PBool True),
            (''created_at'', PStr now)]
           (users (data s)))"
  by (auto simp add: register_user_def get_next_id_def save_data_def Let_def split: option.splits)

lemma user_complete_new:
  "user_complete
     [(''id'', PInt i), (''username'', PStr u), (''password_hash'', PStr d),
      (''role'', PStr r), (''first_name'', PStr f), (''last_name'', PStr l),
      (''email'', PStr e), (''phone'', PStr ph), (''is_active'', PBool True),
      (''created_at'', PStr now)]"
  by (simp add: user_complete_def)

lemma complete_update:
  "\<forall>r \<in> snd ` set us. user_complete r \<Longrightarrow> user_complete r' \<Longrightarrow>
   \<forall>r \<in> snd ` set (AList.update k r' us). user_complete r"
  using set_update_subset [of k r' us] by auto

lemma exec_users_complete:
  assumes "\<forall>r \<in> snd ` set (users (data s)). user_complete r"
  shows "\<forall>r \<in> snd ` set (users (data (exec h c s))). user_complete r"
proof (cases c)
  case (RegisterUser now u p ro f l e ph)
  from register_user_users [of h now u p ro f l e ph s]
  have "\<forall>r \<in> snd ` set (users (data (snd (register_user h now u p ro f l e ph s)))).
      user_complete r"
  proof
    assume "users (data (snd (register_user h now u p ro f l e ph s))) = users (data s)"
    with assms show ?thesis by simp
  next
    assume "\<exists>i. users (data (snd (register_user h now u p ro f l e ph s))) =
         AList.update (KStr u)
           [(''id'', PInt i), (''username'', PStr u), (''password_hash'', PStr (h p)),
            (''role'', PStr ro), (''first_name'', PStr f), (''last_name'', PStr l),
            (''email'', PStr e), (''phone'', PStr ph), (''is_active'', PBool True),
            (''created_at'', PStr now)]
           (users (data s))"
    then obtain i where v: "users (data (snd (register_user h now u p ro f l e ph s))) =
         AList.update (KStr u)
           [(''id'', PInt i), (''username'', PStr u), (''password_hash'', PStr (h p)),
            (''role'', PStr ro), (''first_name'', PStr f), (''last_name'', PStr l),
            (''email'', PStr e), (''phone'', PStr ph), (''is_active'', PBool True),
            (''created_at'', PStr now)]
           (users (data s))"
      by blast
    from assms user_complete_new show ?thesis unfolding v by (rule complete_update)
  qed
  with RegisterUser show ?thesis by simp
qed (use assms in \<open>simp_all add: call_users\<close>)

lemma reachable_users_complete_aux:
  "reachable h s \<Longrightarrow>
     (\<forall>r \<in> snd ` set (users (data s)). user_complete r)
   \<and> (\<forall>j. disk s = Some j \<longrightarrow> (\<forall>r \<in> snd ` set (json_users j). user_complete r))"
proof (induction rule: reachable.induct)
  case fresh
  show ?case by (simp add: init_def load_data_def empty_document_def)
next
  case (call s c)
  then have "\<forall>r \<in> snd ` set (users (data s)). user_complete r"
    by blast
  then have d: "\<forall>r \<in> snd ` set (users (data (exec h c s))). user_complete r"
    by (rule exec_users_complete)
  from exec_disk [of h c s]
  have "\<forall>j. disk (exec h c s) = Some j \<longrightarrow> (\<forall>r \<in> snd ` set (json_users j). user_complete r)"
  proof
    assume "disk (exec h c s) = disk s"
    with call.IH show ?thesis by simp
  next
    assume "disk (exec h c s) = Some (json_dump (data (exec h c s)))"
    moreover have e: "snd ` set (dump_collection (users (data (exec h c s))))
        = snd ` set (users (data (exec h c s)))"
      using values_dump_collection [of "users (data (exec h c s))"] by (metis set_map)
    have "\<forall>r \<in> snd ` set (dump_collection (users (data (exec h c s)))). user_complete r"
      unfolding e using d .
    ultimately show ?thesis
      by (simp add: json_dump_def)
  qed
  with d show ?case by blast
next
  case (restart s)
  show ?case
  proof (cases "disk s")
    case None
    then show ?thesis by (simp add: init_def load_data_def empty_document_def)
  next
    case (Some j)
    with restart.IH have f: "\<forall>r \<in> snd ` set (json_users j). user_complete r"
      by blast
    with values_load_collection [of "json_users j"]
    have "\<forall>r \<in> snd ` set (load_collection (json_users j)). user_complete r"
      by blast
    with Some f show ?thesis
      by (simp add: init_def load_data_def json_load_def)
  qed
qed

lemma reachable_users_complete:
  assumes "reachable h s" and "get_user u s = Some r"
  shows "user_complete r"
proof -
  from assms(2) have "(KStr u, r) \<in> set (users (data s))"
    unfolding get_user_def by (rule map_of_SomeD)
  then have "r \<in> snd ` set (users (data s))" by force
  with reachable_users_complete_aux [OF assms(1)] show ?thesis by blast
qed

text \<open>
  Claim C3. \<open>login_user\<close> returns the user record exactly when the username is stored,
  the stored digest is the digest of the password, and the stored record is active. It
  fails with \<open>NotFound\<close> when the username is absent, with \<open>InvalidCredentials\<close> when
  the stored digest differs from the digest of the password, and with
  \<open>AccountDisabled\<close> when the digest matches and the record is not active. In every
  reachable state a stored user record has a digest and an active flag, so these cases
  are all there are.
\<close>

theorem login_user_cases:
  "(login_user h u p s = Inr r \<longleftrightarrow>
      get_user u s = Some r \<and> map_of r ''password_hash'' = Some (PStr (h p))
      \<and> (\<exists>a. map_of r ''is_active'' = Some a \<and> truthy a))
 \<and> (get_user u s = None \<longrightarrow> login_user h u p s = Inl (NotFound User))
 \<and> (get_user u s = Some r \<and> map_of r ''password_hash'' = Some d \<and> d \<noteq> PStr (h p)
      \<longrightarrow> login_user h u p s = Inl InvalidCredentials)
 \<and> (get_user u s = Some r \<and> map_of r ''password_hash'' = Some (PStr (h p))
      \<and> map_of r ''is_active'' = Some a \<and> \<not> truthy a
      \<longrightarrow> login_user h u p s = Inl AccountDisabled)
 \<and> (reachable h s \<and> get_user u s = Some r
      \<longrightarrow> map_of r ''password_hash'' \<noteq> None \<and> map_of r ''is_active'' \<noteq> None)"
proof -
  have "reachable h s \<and> get_user u s = Some r
      \<longrightarrow> map_of r ''password_hash'' \<noteq> None \<and> map_of r ''is_active'' \<noteq> None"
    using reachable_users_complete [of h s u r] by (simp add: user_complete_def)
  then show ?thesis
    by (auto simp add: login_user_def get_user_def verify_password_def split: option.splits)
qed

theorem login_user_cases_witness:
  "login_user rev ''admin'' ''admin123'' (init (Some example_file)) =
     Inr [(''id'', PInt 1), (''username'', PStr ''admin''),
          (''password_hash'', PStr ''321nimda''), (''is_active'', PBool True)]
   \<and> login_user rev ''nobody'' ''admin123'' (init (Some example_file)) = Inl (NotFound User)
   \<and> login_user rev ''admin'' ''guess'' (init (Some example_file)) = Inl InvalidCredentials
   \<and> login_user rev ''former'' ''guess'' (init (Some example_file)) = Inl InvalidCredentials
   \<and> login_user rev ''former'' ''secret'' (init (Some example_file)) = Inl AccountDisabled
   \<and> reachable rev example_users
   \<and> map_of (the (get_user ''admin'' example_users)) ''password_hash'' = Some (PStr ''321nimda'')
   \<and> map_of (the (get_user ''admin'' example_users)) ''is_active'' = Some (PBool True)"
proof -
  have r: "reachable rev example_users"
    unfolding example_users_def by (intro reachable_run reachable.fresh)
  have g: "get_user ''admin'' example_users = Some (the (get_user ''admin'' example_users))"
    by (simp add: get_user_def example_users_data)
  from r g login_user_cases [of rev "''admin''" "''admin123''" example_users
      "the (get_user ''admin'' example_users)"]
  have "map_of (the (get_user ''admin'' example_users)) ''password_hash'' \<noteq> None
      \<and> map_of (the (get_user ''admin'' example_users)) ''is_active'' \<noteq> None"
    by blast
  then have f: "map_of (the (get_user ''admin'' example_users)) ''password_hash'' = Some (PStr ''321nimda'')
      \<and> map_of (the (get_user ''admin'' example_users)) ''is_active'' = Some (PBool True)"
    by (simp add: get_user_def example_users_data)
  have "login_user rev ''admin'' ''admin123'' (init (Some example_file)) =
     Inr [(''id'', PInt 1), (''username'', PStr ''admin''),
          (''password_hash'', PStr ''321nimda''), (''is_active'', PBool True)]
   \<and> login_user rev ''nobody'' ''admin123'' (init (Some example_file)) = Inl (NotFound User)
   \<and> login_user rev ''admin'' ''guess'' (init (Some example_file)) = Inl InvalidCredentials
   \<and> login_user rev ''former'' ''guess'' (init (Some example_file)) = Inl InvalidCredentials
   \<and> login_user rev ''former'' ''secret'' (init (Some example_file)) = Inl AccountDisabled"
  using
    login_user_cases [of rev "''admin''" "''admin123''" "init (Some example_file)"
          "[(''id'', PInt 1), (''username'', PStr ''admin''),
            (''password_hash'', PStr ''321nimda''), (''is_active'', PBool True)]"
          "PStr ''321nimda''" "PBool True"]
    login_user_cases [of rev "''nobody''" "''admin123''" "init (Some example_file)"]
    login_user_cases [of rev "''admin''" "''guess''" "init (Some example_file)"
          "[(''id'', PInt 1), (''username'', PStr ''admin''),
            (''password_hash'', PStr ''321nimda''), (''is_active'', PBool True)]"
          "PStr ''321nimda''" "PBool True"]
    login_user_cases [of rev "''former''" "''guess''" "init (Some example_file)"
          "[(''id'', PInt 2), (''username'', PStr ''former''),
            (''password_hash'', PStr ''terces''), (''is_active'', PBool False)]"
          "PStr ''terces''" "PBool False"]
    login_user_cases [of rev "''former''" "''secret''" "init (Some example_file)"
          "[(''id'', PInt 2), (''username'', PStr ''former''),
            (''password_hash'', PStr ''terces''), (''is_active'', PBool False)]"
          "PStr ''terces''" "PBool False"]
    by (simp add: get_user_def example_file_def io_defs)
  with r f show ?thesis by (intro conjI) simp_all
qed

subsection \<open>Assigning and releasing a bed\<close>

lemma assign_bed_success:
  assumes "fst (assign_bed now b p s) = Inr bed'"
  shows "map_of (beds (data (snd (assign_bed now b p s)))) (KInt b) = Some bed'"
    and "map_of bed' ''status'' = Some (PStr ''occupied'')"
    and "patients (data (snd (assign_bed now b p s))) = patients (data s)"
  using assms
  by (auto simp add: assign_bed_def Let_def save_data_def update_conv'
      split: option.splits if_splits)

lemma release_bed_success:
  assumes "fst (release_bed b s) = Inr bed'"
  shows "map_of (beds (data (snd (release_bed b s)))) (KInt b) = Some bed'"
    and "map_of bed' ''status'' = Some (PStr ''available'')"
  using assms
  by (auto simp add: release_bed_def Let_def save_data_def update_conv'
      split: option.splits if_splits)

lemma assign_bed_occupied:
  "map_of (beds (data s)) (KInt b) = Some bed \<Longrightarrow>
   map_of bed ''status'' = Some (PStr ''occupied'') \<Longrightarrow>
   map_of (patients (data s)) (KInt p) = Some r \<Longrightarrow>
   fst (assign_bed now b p s) = Inl BedNotAvailable"
  by (simp add: assign_bed_def)

lemma release_bed_available:
  "map_of (beds (data s)) (KInt b) = Some bed \<Longrightarrow>
   map_of bed ''status'' = Some (PStr ''available'') \<Longrightarrow>
   fst (release_bed b s) = Inl BedNotOccupied"
  by (simp add: release_bed_def)

text \<open>
  Claim C5. After a successful \<open>assign_bed\<close> on a bed, a second \<open>assign_bed\<close> on the
  same bed, for any stored patient, fails with \<open>BedNotAvailable\<close>; after a successful
  \<open>release_bed\<close>, a second \<open>release_bed\<close> on the same bed fails with
  \<open>BedNotOccupied\<close>.
\<close>

theorem second_assign_and_second_release_fail:
  "(fst (assign_bed now1 b p1 s) = Inr bed1 \<and> get_patient p2 s = Some r2
      \<longrightarrow> fst (assign_bed now2 b p2 (snd (assign_bed now1 b p1 s))) = Inl BedNotAvailable)
   \<and> (fst (release_bed b s) = Inr bed2
      \<longrightarrow> fst (release_bed b (snd (release_bed b s))) = Inl BedNotOccupied)"
proof (intro conjI impI)
  assume a: "fst (assign_bed now1 b p1 s) = Inr bed1 \<and> get_patient p2 s = Some r2"
  then have "map_of (patients (data (snd (assign_bed now1 b p1 s)))) (KInt p2) = Some r2"
    by (simp add: assign_bed_success(3) get_patient_def)
  with a show "fst (assign_bed now2 b p2 (snd (assign_bed now1 b p1 s))) = Inl BedNotAvailable"
    by (blast intro: assign_bed_occupied assign_bed_success(1,2))
next
  assume "fst (release_bed b s) = Inr bed2"
  then show "fst (release_bed b (snd (release_bed b s))) = Inl BedNotOccupied"
    by (blast intro: release_bed_available release_bed_success)
qed

theorem second_assign_and_second_release_fail_witness:
  "fst (assign_bed ''2024-03-01T08:00:00'' 1 1 example_ward) =
     Inr [(''id'', PInt 1), (''bed_number'', PStr ''G001''), (''bed_type'', PStr ''general''),
          (''status'', PStr ''occupied''), (''ward'', PStr ''Ward A''), (''patient_id'', PInt 1),
          (''assigned_at'', PStr ''2024-03-01T08:00:00''),
          (''created_at'', PStr ''2024-01-01T09:00:02'')]
   \<and> fst (assign_bed ''2024-03-01T08:05:00'' 1 2
            (snd (assign_bed ''2024-03-01T08:00:00'' 1 1 example_ward))) = Inl BedNotAvailable
   \<and> fst (release_bed 1 (snd (assign_bed ''2024-03-01T08:00:00'' 1 1 example_ward))) =
     Inr [(''id'', PInt 1), (''bed_number'', PStr ''G001''), (''bed_type'', PStr ''general''),
          (''status'', PStr ''available''), (''ward'', PStr ''Ward A''), (''patient_id'', PNone),
          (''assigned_at'', PNone), (''created_at'', PStr ''2024-01-01T09:00:02'')]
   \<and> fst (release_bed 1
            (snd (release_bed 1 (snd (assign_bed ''2024-03-01T08:00:00'' 1 1 example_ward)))))
       = Inl BedNotOccupied"
proof -
  let ?s1 = "snd (assign_bed ''2024-03-01T08:00:00'' 1 1 example_ward)"
  have h1: "fst (assign_bed ''2024-03-01T08:00:00'' 1 1 example_ward) =
     Inr [(''id'', PInt 1), (''bed_number'', PStr ''G001''), (''bed_type'', PStr ''general''),
          (''status'', PStr ''occupied''), (''ward'', PStr ''Ward A''), (''patient_id'', PInt 1),
          (''assigned_at'', PStr ''2024-03-01T08:00:00''),
          (''created_at'', PStr ''2024-01-01T09:00:02'')]"
    by (simp add: assign_bed_def save_data_def Let_def example_ward_data)
  have h2: "get_patient 2 example_ward = Some (the (get_patient 2 example_ward))"
    by (simp add: get_patient_def example_ward_data)
  have beds1: "beds (data ?s1) =
     [(KInt 1, [(''id'', PInt 1), (''bed_number'', PStr ''G001''), (''bed_type'', PStr ''general''),
          (''status'', PStr ''occupied''), (''ward'', PStr ''Ward A''), (''patient_id'', PInt 1),
          (''assigned_at'', PStr ''2024-03-01T08:00:00''),
          (''created_at'', PStr ''2024-01-01T09:00:02'')])]"
    by (simp add: assign_bed_def save_data_def Let_def example_ward_data)
  have h3: "fst (release_bed 1 ?s1) =
     Inr [(''id'', PInt 1), (''bed_number'', PStr ''G001''), (''bed_type'', PStr ''general''),
          (''status'', PStr ''available''), (''ward'', PStr ''Ward A''), (''patient_id'', PNone),
          (''assigned_at'', PNone), (''created_at'', PStr ''2024-01-01T09:00:02'')]"
    by (simp add: release_bed_def save_data_def Let_def beds1)
  from h1 h2 have a: "fst (assign_bed ''2024-03-01T08:05:00'' 1 2 ?s1) = Inl BedNotAvailable"
    using second_assign_and_second_release_fail [where s = example_ward and b = 1] by blast
  from h3 have r: "fst (release_bed 1 (snd (release_bed 1 ?s1))) = Inl BedNotOccupied"
    using second_assign_and_second_release_fail [where s = ?s1 and b = 1] by blast
  from h1 a h3 r show ?thesis by blast
qed

subsection \<open>The bed invariant\<close>

lemma new_bed_consistent:
  "bed_consistent
     [(''id'', PInt bed_id), (''bed_number'', PStr bed_number), (''bed_type'', PStr bed_type),
      (''status'', PStr ''available''), (''ward'', PStr ward), (''patient_id'', PNone),
      (''assigned_at'', PNone), (''created_at'', PStr now)]"
  by (simp add: bed_consistent_def is_set_def)

lemma assigned_bed_consistent:
  "bed_consistent
     (AList.update ''assigned_at'' (PStr now)
        (AList.update ''patient_id'' (PInt patient_id)
           (AList.update ''status'' (PStr ''occupied'') bed)))"
  by (simp add: bed_consistent_def is_set_def update_conv')

lemma released_bed_consistent:
  "bed_consistent
     (AList.update ''assigned_at'' PNone
        (AList.update ''patient_id'' PNone
           (AList.update ''status'' (PStr ''available'') bed)))"
  by (simp add: bed_consistent_def is_set_def update_conv')

lemma beds_consistent_update:
  "beds_consistent s \<Longrightarrow> bed_consistent b \<Longrightarrow>
   beds (data s') = AList.update k b (beds (data s)) \<Longrightarrow> beds_consistent s'"
  unfolding beds_consistent_def
  using set_update_subset [of k b "beds (data s)"] by auto

lemma beds_consistent_same:
  "beds_consistent s \<Longrightarrow> beds (data s') = beds (data s) \<Longrightarrow> beds_consistent s'"
  by (simp add: beds_consistent_def)

lemma add_bed_beds:
  "beds (data (snd (add_bed now n t w s))) = beds (data s)
   \<or> (\<exists>i. beds (data (snd (add_bed now n t w s))) =
         AList.update (KInt i)
           [(''id'', PInt i), (''bed_number'', PStr n), (''bed_type'', PStr t),
            (''status'', PStr ''available''), (''ward'', PStr w), (''patient_id'', PNone),
            (''assigned_at'', PNone), (''created_at'', PStr now)]
           (beds (data s)))"
  by (auto simp add: add_bed_def get_next_id_def save_data_def Let_def split: option.splits)

lemma assign_bed_beds:
  "beds (data (snd (assign_bed now b p s))) = beds (data s)
   \<or> (\<exists>bed. beds (data (snd (assign_bed now b p s))) =
         AList.update (KInt b)
           (AList.update ''assigned_at'' (PStr now)
              (AList.update ''patient_id'' (PInt p)
                 (AList.update ''status'' (PStr ''occupied'') bed)))
           (beds (data s)))"
  by (auto simp add: assign_bed_def save_data_def Let_def split: option.splits)

lemma release_bed_beds:
  "beds (data (snd (release_bed b s))) = beds (data s)
   \<or> (\<exists>bed. beds (data (snd (release_bed b s))) =
         AList.update (KInt b)
           (AList.update ''assigned_at'' PNone
              (AList.update ''patient_id'' PNone
                 (AList.update ''status'' (PStr ''available'') bed)))
           (beds (data s)))"
  by (auto simp add: release_bed_def save_data_def Let_def split: option.splits)

lemma add_bed_consistent: "beds_consistent s \<Longrightarrow> beds_consistent (snd (add_bed now n t w s))"
  using add_bed_beds [of now n t w s]
  by (blast intro: beds_consistent_same beds_consistent_update new_bed_consistent)

lemma assign_bed_consistent: "beds_consistent s \<Longrightarrow> beds_consistent (snd (assign_bed now b p s))"
  using assign_bed_beds [of now b p s]
  by (blast intro: beds_consistent_same beds_consistent_update assigned_bed_consistent)

lemma release_bed_consistent: "beds_consistent s \<Longrightarrow> beds_consistent (snd (release_bed b s))"
  using release_bed_beds [of b s]
  by (blast intro: beds_consistent_same beds_consistent_update released_bed_consistent)

lemma other_calls_keep_beds:
  "beds (data (snd (get_next_id k s))) = beds (data s)"
  "beds (data (snd (register_user h now u p r f l e ph s))) = beds (data s)"
  "beds (data (snd (add_patient now f l a g ph e mh al s))) = beds (data s)"
  "beds (data (snd (update_patient i kw s))) = beds (data s)"
  "beds (data (snd (delete_patient i s))) = beds (data s)"
  "beds (data (snd (add_doctor now f l sp ph e sh li s))) = beds (data s)"
  "beds (data (snd (update_doctor i kw s))) = beds (data s)"
  "beds (data (snd (add_medicine now n x q up c m s))) = beds (data s)"
  "beds (data (snd (update_medicine_stock i q s))) = beds (data s)"
  by (simp_all add: op_defs Let_def split: option.splits)

lemma exec_beds_consistent: "beds_consistent s \<Longrightarrow> beds_consistent (exec h c s)"
  by (cases c)
     (simp_all add: add_bed_consistent assign_bed_consistent release_bed_consistent
        beds_consistent_same other_calls_keep_beds)

lemma exec_file_beds_consistent:
  assumes "file_beds_consistent s" and "beds_consistent (exec h c s)"
  shows "file_beds_consistent (exec h c s)"
  using exec_disk [of h c s] assms
  by (auto simp add: file_beds_consistent_def beds_consistent_def json_dump_def
      values_dump_collection)

lemma restart_beds_consistent:
  assumes "file_beds_consistent s"
  shows "beds_consistent (init (disk s))" and "file_beds_consistent (init (disk s))"
proof -
  show "beds_consistent (init (disk s))"
  proof (cases "disk s")
    case None
    then show ?thesis
      by (simp add: beds_consistent_def init_def load_data_def empty_document_def)
  next
    case (Some j)
    with assms have "\<forall>b \<in> snd ` set (json_beds j). bed_consistent b"
      by (simp add: file_beds_consistent_def)
    with values_load_collection [of "json_beds j"]
    have "\<forall>b \<in> snd ` set (load_collection (json_beds j)). bed_consistent b"
      by blast
    with Some show ?thesis
      by (simp add: beds_consistent_def init_def load_data_def json_load_def)
  qed
  show "file_beds_consistent (init (disk s))"
    using assms by (simp add: file_beds_consistent_def init_def)
qed

lemma reachable_beds:
  "reachable h s \<Longrightarrow> beds_consistent s \<and> file_beds_consistent s"
proof (induction rule: reachable.induct)
  case fresh
  show ?case
    by (simp add: beds_consistent_def file_beds_consistent_def init_def load_data_def
        empty_document_def)
next
  case (call s c)
  then show ?case
    by (simp add: exec_beds_consistent exec_file_beds_consistent)
next
  case (restart s)
  then show ?case
    by (simp add: restart_beds_consistent)
qed

text \<open>
  Claim C4. In every reachable state of the store (a new object on no file, any sequence
  of calls, restarts on the file written so far) every bed record is consistent: status
  occupied, patient reference set and assignment time stamp set are equivalent. Each of
  \<open>add_bed\<close>, \<open>assign_bed\<close> and \<open>release_bed\<close> preserves this, from any store.
\<close>

theorem bed_invariant:
  "(reachable h s \<longrightarrow> beds_consistent s)
 \<and> (beds_consistent s \<longrightarrow> beds_consistent (snd (add_bed now n t w s)))
 \<and> (beds_consistent s \<longrightarrow> beds_consistent (snd (assign_bed now b p s)))
 \<and> (beds_consistent s \<longrightarrow> beds_consistent (snd (release_bed b s)))"
  by (simp add: reachable_beds add_bed_consistent assign_bed_consistent release_bed_consistent)

theorem bed_invariant_witness:
  "reachable rev example_ward
 \<and> beds_consistent example_ward
 \<and> beds_consistent (snd (add_bed ''2024-03-01T07:00:00'' ''ICU001'' ''icu'' ''ICU'' example_ward))
 \<and> beds_consistent (snd (assign_bed ''2024-03-01T08:00:00'' 1 1 example_ward))
 \<and> map (\<lambda>b. (map_of b ''status'', is_set b ''patient_id'', is_set b ''assigned_at''))
      (map snd (beds (data (snd (assign_bed ''2024-03-01T08:00:00'' 1 1 example_ward)))))
    = [(Some (PStr ''occupied''), True, True)]
 \<and> beds_consistent (snd (release_bed 1 (snd (assign_bed ''2024-03-01T08:00:00'' 1 1 example_ward))))"
proof -
  have r: "reachable rev example_ward"
    unfolding example_ward_def by (intro reachable_run reachable.fresh)
  note t = bed_invariant [where h = rev and s = example_ward]
  from r t have c: "beds_consistent example_ward" by blast
  from c t have a: "beds_consistent (snd (assign_bed ''2024-03-01T08:00:00'' 1 1 example_ward))"
    by blast
  from c t have n: "beds_consistent (snd (add_bed ''2024-03-01T07:00:00'' ''ICU001'' ''icu'' ''ICU'' example_ward))"
    by blast
  from a bed_invariant [where s = "snd (assign_bed ''2024-03-01T08:00:00'' 1 1 example_ward)"]
  have l: "beds_consistent (snd (release_bed 1 (snd (assign_bed ''2024-03-01T08:00:00'' 1 1 example_ward))))"
    by blast
  have v: "map (\<lambda>b. (map_of b ''status'', is_set b ''patient_id'', is_set b ''assigned_at''))
      (map snd (beds (data (snd (assign_bed ''2024-03-01T08:00:00'' 1 1 example_ward)))))
    = [(Some (PStr ''occupied''), True, True)]"
    by (simp add: assign_bed_def save_data_def Let_def example_ward_data is_set_def)
  from r c n a v l show ?thesis by (intro conjI)
qed

subsection \<open>Identifier allocation\<close>












subsection \<open>Partial updates\<close>

lemma apply_kwargs_keys: "map fst (apply_kwargs r kw) = map fst r"
  by (induction kw arbitrary: r) (auto simp add: update_keys)

lemma map_of_rev_Cons:
  "map_of (rev ((key, val) # kw)) k =
     (case map_of (rev kw) k of Some v \<Rightarrow> Some v | None \<Rightarrow> if k = key then Some val else None)"
  by (simp add: map_add_def split: option.splits)

lemma apply_kwargs_map_of:
  "map_of (apply_kwargs r kw) k =
     (if k \<in> set (map fst r) \<and> k \<notin> {''id'', ''created_at''} \<and> k \<in> set (map fst kw)
      then map_of (rev kw) k else map_of r k)"
proof (induction kw arbitrary: r)
  case Nil
  then show ?case by simp
next
  case (Cons a kw)
  obtain key val where a: "a = (key, val)" by (cases a)
  let ?r' = "if key \<in> set (map fst r) \<and> key \<notin> set [''id'', ''created_at'']
             then AList.update key val r else r"
  have keys: "set (map fst ?r') = set (map fst r)" by (auto simp add: dom_update)
  have in_rev: "k \<in> set (map fst kw) \<Longrightarrow> \<exists>v. map_of (rev kw) k = Some v"
    by (metis map_of_eq_None_iff not_Some_eq set_map set_rev)
  have not_in_rev: "k \<notin> set (map fst kw) \<Longrightarrow> map_of (rev kw) k = None"
    by (simp add: map_of_eq_None_iff)
  have "map_of (apply_kwargs r (a # kw)) k = map_of (apply_kwargs ?r' kw) k"
    by (simp add: a)
  also have "\<dots> = (if k \<in> set (map fst ?r') \<and> k \<notin> {''id'', ''created_at''} \<and> k \<in> set (map fst kw)
      then map_of (rev kw) k else map_of ?r' k)"
    by (rule Cons.IH)
  also have "\<dots> = (if k \<in> set (map fst r) \<and> k \<notin> {''id'', ''created_at''} \<and> k \<in> set (map fst (a # kw))
      then map_of (rev (a # kw)) k else map_of r k)"
  proof (cases "k \<in> set (map fst kw)")
    case True
    with in_rev obtain v where "map_of (rev kw) k = Some v" by blast
    with True show ?thesis
      unfolding keys a map_of_rev_Cons by (auto simp add: update_conv')
  next
    case False
    with not_in_rev have "map_of (rev kw) k = None" by blast
    with False show ?thesis
      unfolding keys a map_of_rev_Cons by (auto simp add: update_conv')
  qed
  finally show ?case .
qed

lemma update_patient_present:
  assumes "get_patient i s = Some r"
  shows "fst (update_patient i kw s) = Inr (apply_kwargs r kw)"
    and "get_patient i (snd (update_patient i kw s)) = Some (apply_kwargs r kw)"
  using assms
  by (simp_all add: update_patient_def get_patient_def save_data_def Let_def update_conv')

lemma update_doctor_present:
  assumes "get_doctor i s = Some r"
  shows "fst (update_doctor i kw s) = Inr (apply_kwargs r kw)"
    and "get_doctor i (snd (update_doctor i kw s)) = Some (apply_kwargs r kw)"
  using assms
  by (simp_all add: update_doctor_def get_doctor_def save_data_def Let_def update_conv')

text \<open>
  Claim C9. For a stored patient or doctor, the update succeeds and stores a record with
  the same fields in the same order (none added); \<open>id\<close> and \<open>created_at\<close> keep their
  values; a field is overwritten exactly when it is in the record, is not \<open>id\<close> or
  \<open>created_at\<close>, and is named by the keyword arguments, and then holds the (last) value
  given for it; every other field keeps its value.
\<close>

theorem update_overwrites_only_existing_mutable_fields:
  "(get_patient i s = Some r \<longrightarrow>
      (\<exists>r'. fst (update_patient i kw s) = Inr r'
          \<and> get_patient i (snd (update_patient i kw s)) = Some r'
          \<and> map fst r' = map fst r
          \<and> map_of r' ''id'' = map_of r ''id''
          \<and> map_of r' ''created_at'' = map_of r ''created_at''
          \<and> (\<forall>k. map_of r' k =
                (if k \<in> set (map fst r) \<and> k \<notin> {''id'', ''created_at''} \<and> k \<in> set (map fst kw)
                 then map_of (rev kw) k else map_of r k))))
 \<and> (get_doctor i s = Some r \<longrightarrow>
      (\<exists>r'. fst (update_doctor i kw s) = Inr r'
          \<and> get_doctor i (snd (update_doctor i kw s)) = Some r'
          \<and> map fst r' = map fst r
          \<and> map_of r' ''id'' = map_of r ''id''
          \<and> map_of r' ''created_at'' = map_of r ''created_at''
          \<and> (\<forall>k. map_of r' k =
                (if k \<in> set (map fst r) \<and> k \<notin> {''id'', ''created_at''} \<and> k \<in> set (map fst kw)
                 then map_of (rev kw) k else map_of r k))))"
proof (intro conjI impI)
  assume "get_patient i s = Some r"
  then show "\<exists>r'. fst (update_patient i kw s) = Inr r'
          \<and> get_patient i (snd (update_patient i kw s)) = Some r'
          \<and> map fst r' = map fst r
          \<and> map_of r' ''id'' = map_of r ''id''
          \<and> map_of r' ''created_at'' = map_of r ''created_at''
          \<and> (\<forall>k. map_of r' k =
                (if k \<in> set (map fst r) \<and> k \<notin> {''id'', ''created_at''} \<and> k \<in> set (map fst kw)
                 then map_of (rev kw) k else map_of r k))"
    by (intro exI [of _ "apply_kwargs r kw"])
       (simp add: update_patient_present apply_kwargs_keys apply_kwargs_map_of)
next
  assume "get_doctor i s = Some r"
  then show "\<exists>r'. fst (update_doctor i kw s) = Inr r'
          \<and> get_doctor i (snd (update_doctor i kw s)) = Some r'
          \<and> map fst r' = map fst r
          \<and> map_of r' ''id'' = map_of r ''id''
          \<and> map_of r' ''created_at'' = map_of r ''created_at''
          \<and> (\<forall>k. map_of r' k =
                (if k \<in> set (map fst r) \<and> k \<notin> {''id'', ''created_at''} \<and> k \<in> set (map fst kw)
                 then map_of (rev kw) k else map_of r k))"
    by (intro exI [of _ "apply_kwargs r kw"])
       (simp add: update_doctor_present apply_kwargs_keys apply_kwargs_map_of)
qed

theorem update_overwrites_only_existing_mutable_fields_witness:
  "fst (update_patient 1 [(''age'', PInt 36), (''id'', PInt 99), (''nickname'', PStr ''Al'')] example_ward) =
     Inr [(''id'', PInt 1), (''first_name'', PStr ''Alice''), (''last_name'', PStr ''Johnson''),
          (''age'', PInt 36), (''gender'', PStr ''Female''), (''phone'', PStr ''123-456-7890''),
          (''email'', PStr ''alice@email.com''), (''medical_history'', PStr ''Diabetes''),
          (''allergies'', PStr ''Penicillin''), (''is_active'', PBool True),
          (''created_at'', PStr ''2024-01-01T09:00:00'')]
   \<and> fst (update_doctor 1 [(''shift'', PStr ''Evening''), (''created_at'', PStr ''1999-01-01'')] example_ward) =
     Inr [(''id'', PInt 1), (''first_name'', PStr ''Dr. Sarah''), (''last_name'', PStr ''Brown''),
          (''specialization'', PStr ''Cardiology''), (''phone'', PStr ''123-456-7801''),
          (''email'', PStr ''sarah@hospital.com''), (''shift'', PStr ''Evening''),
          (''license_number'', PStr ''DOC001''), (''is_available'', PBool True),
          (''created_at'', PStr ''2024-01-01T09:00:03'')]"
proof -
  let ?kw = "[(''age'', PInt 36), (''id'', PInt 99), (''nickname'', PStr ''Al'')]"
  let ?kd = "[(''shift'', PStr ''Evening''), (''created_at'', PStr ''1999-01-01'')]"
  let ?p = "[(''id'', PInt 1), (''first_name'', PStr ''Alice''), (''last_name'', PStr ''Johnson''),
          (''age'', PInt 35), (''gender'', PStr ''Female''), (''phone'', PStr ''123-456-7890''),
          (''email'', PStr ''alice@email.com''), (''medical_history'', PStr ''Diabetes''),
          (''allergies'', PStr ''Penicillin''), (''is_active'', PBool True),
          (''created_at'', PStr ''2024-01-01T09:00:00'')]"
  let ?d = "[(''id'', PInt 1), (''first_name'', PStr ''Dr. Sarah''), (''last_name'', PStr ''Brown''),
          (''specialization'', PStr ''Cardiology''), (''phone'', PStr ''123-456-7801''),
          (''email'', PStr ''sarah@hospital.com''), (''shift'', PStr ''Morning''),
          (''license_number'', PStr ''DOC001''), (''is_available'', PBool True),
          (''created_at'', PStr ''2024-01-01T09:00:03'')]"
  have gp: "get_patient 1 example_ward = Some ?p"
    by (simp add: get_patient_def example_ward_data)
  have gd: "get_doctor 1 example_ward = Some ?d"
    by (simp add: get_doctor_def example_ward_data)
  have ep: "fst (update_patient 1 ?kw example_ward) = Inr (apply_kwargs ?p ?kw)"
    using gp by (simp add: update_patient_def get_patient_def Let_def)
  have ed: "fst (update_doctor 1 ?kd example_ward) = Inr (apply_kwargs ?d ?kd)"
    using gd by (simp add: update_doctor_def get_doctor_def Let_def)
  from gp update_overwrites_only_existing_mutable_fields [of 1 example_ward ?p ?kw]
  have "map_of (apply_kwargs ?p ?kw) ''age'' = Some (PInt 36)
      \<and> map_of (apply_kwargs ?p ?kw) ''id'' = Some (PInt 1)
      \<and> map_of (apply_kwargs ?p ?kw) ''nickname'' = None"
    unfolding ep by auto
  moreover from gd update_overwrites_only_existing_mutable_fields [of 1 example_ward ?d ?kd]
  have "map_of (apply_kwargs ?d ?kd) ''shift'' = Some (PStr ''Evening'')
      \<and> map_of (apply_kwargs ?d ?kd) ''created_at'' = Some (PStr ''2024-01-01T09:00:03'')"
    unfolding ed by auto
  ultimately show ?thesis
    unfolding ep ed by simp
qed

subsection \<open>Soft deletion of patients\<close>






lemma comprehension_skip:
  "c x = Inr False \<Longrightarrow> comprehension c (x # xs) = comprehension c xs"
  by (simp split: sum.splits)















subsection \<open>Expired medicines\<close>

lemma call_medicines:
  "medicines (data (snd (get_next_id k s))) = medicines (data s)"
  "medicines (data (snd (register_user h now u p r f l e ph s))) = medicines (data s)"
  "medicines (data (snd (add_patient now f l a g ph e mh al s))) = medicines (data s)"
  "medicines (data (snd (update_patient i kw s))) = medicines (data s)"
  "medicines (data (snd (delete_patient i s))) = medicines (data s)"
  "medicines (data (snd (add_doctor now f l sp ph e sh li s))) = medicines (data s)"
  "medicines (data (snd (update_doctor i kw s))) = medicines (data s)"
  "medicines (data (snd (add_bed now n t w s))) = medicines (data s)"
  "medicines (data (snd (assign_bed now b pid s))) = medicines (data s)"
  "medicines (data (snd (release_bed b s))) = medicines (data s)"
  by (simp_all add: op_defs Let_def split: option.splits)

lemma add_medicine_medicines:
  "medicines (data (snd (add_medicine now n x q up c m s))) = medicines (data s)
   \<or> (\<exists>i. medicines (data (snd (add_medicine now n x q up c m s))) =
         AList.update (KInt i)
           [(''id'', PInt i), (''name'', PStr n), (''expiry_date'', PStr x),
            (''quantity'', PInt q), (''unit_price'', PFloat up), (''category'', PStr c),
            (''minimum_stock_level'', PInt m), (''created_at'', PStr now)]
           (medicines (data s)))"
  by (auto simp add: add_medicine_def get_next_id_def save_data_def Let_def split: option.splits)

lemma update_medicine_stock_medicines:
  "medicines (data (snd (update_medicine_stock i q s))) = medicines (data s)
   \<or> (\<exists>m. (KInt i, m) \<in> set (medicines (data s))
         \<and> medicines (data (snd (update_medicine_stock i q s))) =
             AList.update (KInt i) (AList.update ''quantity'' (PInt q) m) (medicines (data s)))"
proof (cases "map_of (medicines (data s)) (KInt i)")
  case None
  then show ?thesis by (simp add: update_medicine_stock_def)
next
  case (Some m)
  then have "(KInt i, m) \<in> set (medicines (data s))" by (rule map_of_SomeD)
  with Some show ?thesis
    by (auto simp add: update_medicine_stock_def save_data_def Let_def)
qed

lemma has_expiry_string_new:
  "has_expiry_string
     [(''id'', PInt i), (''name'', PStr n), (''expiry_date'', PStr x),
      (''quantity'', PInt q), (''unit_price'', PFloat up), (''category'', PStr c),
      (''minimum_stock_level'', PInt m), (''created_at'', PStr now)]"
  by (simp add: has_expiry_string_def)

lemma has_expiry_string_quantity:
  "has_expiry_string m \<Longrightarrow> has_expiry_string (AList.update ''quantity'' v m)"
  by (simp add: has_expiry_string_def update_conv')

lemma dated_update:
  "\<forall>m \<in> snd ` set ms. has_expiry_string m \<Longrightarrow> has_expiry_string r \<Longrightarrow>
   \<forall>m \<in> snd ` set (AList.update k r ms). has_expiry_string m"
  using set_update_subset [of k r ms] by auto

lemma exec_medicines_dated:
  assumes "\<forall>m \<in> snd ` set (medicines (data s)). has_expiry_string m"
  shows "\<forall>m \<in> snd ` set (medicines (data (exec h c s))). has_expiry_string m"
proof (cases c)
  case (AddMedicine now n x q up ca mi)
  from add_medicine_medicines [of now n x q up ca mi s]
  have "\<forall>m \<in> snd ` set (medicines (data (snd (add_medicine now n x q up ca mi s)))).
      has_expiry_string m"
  proof
    assume "medicines (data (snd (add_medicine now n x q up ca mi s))) = medicines (data s)"
    with assms show ?thesis by simp
  next
    assume "\<exists>i. medicines (data (snd (add_medicine now n x q up ca mi s))) =
         AList.update (KInt i)
           [(''id'', PInt i), (''name'', PStr n), (''expiry_date'', PStr x),
            (''quantity'', PInt q), (''unit_price'', PFloat up), (''category'', PStr ca),
            (''minimum_stock_level'', PInt mi), (''created_at'', PStr now)]
           (medicines (data s))"
    then obtain i where u: "medicines (data (snd (add_medicine now n x q up ca mi s))) =
         AList.update (KInt i)
           [(''id'', PInt i), (''name'', PStr n), (''expiry_date'', PStr x),
            (''quantity'', PInt q), (''unit_price'', PFloat up), (''category'', PStr ca),
            (''minimum_stock_level'', PInt mi), (''created_at'', PStr now)]
           (medicines (data s))"
      by blast
    from assms has_expiry_string_new show ?thesis unfolding u by (rule dated_update)
  qed
  with AddMedicine show ?thesis by simp
next
  case (UpdateMedicineStock i q)
  from update_medicine_stock_medicines [of i q s]
  have "\<forall>m \<in> snd ` set (medicines (data (snd (update_medicine_stock i q s)))). has_expiry_string m"
  proof
    assume "medicines (data (snd (update_medicine_stock i q s))) = medicines (data s)"
    with assms show ?thesis by simp
  next
    assume "\<exists>m. (KInt i, m) \<in> set (medicines (data s))
         \<and> medicines (data (snd (update_medicine_stock i q s))) =
             AList.update (KInt i) (AList.update ''quantity'' (PInt q) m) (medicines (data s))"
    then obtain m where m: "(KInt i, m) \<in> set (medicines (data s))"
      and u: "medicines (data (snd (update_medicine_stock i q s))) =
             AList.update (KInt i) (AList.update ''quantity'' (PInt q) m) (medicines (data s))"
      by blast
    from m assms have "has_expiry_string m" by force
    then have "has_expiry_string (AList.update ''quantity'' (PInt q) m)"
      by (rule has_expiry_string_quantity)
    with assms show ?thesis unfolding u by (rule dated_update)
  qed
  with UpdateMedicineStock show ?thesis by simp
qed (use assms in \<open>simp_all add: call_medicines\<close>)

lemma reachable_medicines_dated_aux:
  "reachable h s \<Longrightarrow>
     (\<forall>m \<in> snd ` set (medicines (data s)). has_expiry_string m)
   \<and> (\<forall>j. disk s = Some j \<longrightarrow> (\<forall>m \<in> snd ` set (json_medicines j). has_expiry_string m))"
proof (induction rule: reachable.induct)
  case fresh
  show ?case by (simp add: init_def load_data_def empty_document_def)
next
  case (call s c)
  then have "\<forall>m \<in> snd ` set (medicines (data s)). has_expiry_string m"
    by blast
  then have d: "\<forall>m \<in> snd ` set (medicines (data (exec h c s))). has_expiry_string m"
    by (rule exec_medicines_dated)
  from exec_disk [of h c s]
  have "\<forall>j. disk (exec h c s) = Some j \<longrightarrow>
      (\<forall>m \<in> snd ` set (json_medicines j). has_expiry_string m)"
  proof
    assume "disk (exec h c s) = disk s"
    with call.IH show ?thesis by simp
  next
    assume "disk (exec h c s) = Some (json_dump (data (exec h c s)))"
    moreover have e: "snd ` set (dump_collection (medicines (data (exec h c s))))
        = snd ` set (medicines (data (exec h c s)))"
      using values_dump_collection [of "medicines (data (exec h c s))"] by (metis set_map)
    have "\<forall>m \<in> snd ` set (dump_collection (medicines (data (exec h c s)))). has_expiry_string m"
      unfolding e using d .
    ultimately show ?thesis
      by (simp add: json_dump_def)
  qed
  with d show ?case by blast
next
  case (restart s)
  show ?case
  proof (cases "disk s")
    case None
    then show ?thesis by (simp add: init_def load_data_def empty_document_def)
  next
    case (Some j)
    with restart.IH have f: "\<forall>m \<in> snd ` set (json_medicines j). has_expiry_string m"
      by blast
    with values_load_collection [of "json_medicines j"]
    have "\<forall>m \<in> snd ` set (load_collection (json_medicines j)). has_expiry_string m"
      by blast
    with Some f show ?thesis
      by (simp add: init_def load_data_def json_load_def)
  qed
qed

lemma reachable_medicines_dated:
  "reachable h s \<Longrightarrow> \<forall>m \<in> set (map snd (medicines (data s))). has_expiry_string m"
  using reachable_medicines_dated_aux [of h s] by simp

lemma comprehension_filter:
  "(\<And>x. x \<in> set xs \<Longrightarrow> c x = Inr (P x)) \<Longrightarrow> comprehension c xs = Inr (filter P xs)"
  by (induction xs) auto

lemma expired_string:
  "has_expiry_string m \<Longrightarrow> expired t m = Inr (expiry_le t m)"
  by (auto simp add: expired_def expiry_le_def has_expiry_string_def split: option.splits pyval.splits)

lemma get_expired_medicines_filter:
  assumes "\<forall>m \<in> set (map snd (medicines (data s))). has_expiry_string m"
  shows "get_expired_medicines today s =
      Inr (filter (expiry_le (isoformat today)) (map snd (medicines (data s))))"
  unfolding get_expired_medicines_def Let_def
  using assms by (intro comprehension_filter) (auto simp add: expired_string)

lemma iso_2025_01_01: "isoformat \<lparr>year = 2025, month = 1, day = 1\<rparr> = ''2025-01-01''"
  by (simp add: str_defs)

text \<open>
  Claim C6. In every reachable state, and in any store whose medicines have a string
  expiry date (as \<open>add_medicine\<close> stores it), for every current date
  \<open>get_expired_medicines\<close> returns exactly the medicines, in stored order, whose
  \<open>expiry_date\<close> string is at most the ISO form of the date. With the date 2025-01-01
  a stored medicine with expiry date 2024-06-30 is returned and none with 2025-12-31 is.
\<close>

theorem get_expired_medicines_exact:
  assumes "reachable h s \<or> (\<forall>m \<in> set (map snd (medicines (data s))). has_expiry_string m)"
  shows "get_expired_medicines today s =
           Inr (filter (expiry_le (isoformat today)) (map snd (medicines (data s))))
       \<and> (\<exists>ms. get_expired_medicines \<lparr>year = 2025, month = 1, day = 1\<rparr> s = Inr ms
            \<and> (\<forall>m \<in> set (map snd (medicines (data s))).
                  map_of m ''expiry_date'' = Some (PStr ''2024-06-30'') \<longrightarrow> m \<in> set ms)
            \<and> (\<forall>m. map_of m ''expiry_date'' = Some (PStr ''2025-12-31'') \<longrightarrow> m \<notin> set ms))"
proof
  from assms reachable_medicines_dated [of h s]
  have dated: "\<forall>m \<in> set (map snd (medicines (data s))). has_expiry_string m"
    by blast
  show "get_expired_medicines today s =
           Inr (filter (expiry_le (isoformat today)) (map snd (medicines (data s))))"
    using dated by (rule get_expired_medicines_filter)
next
  from assms reachable_medicines_dated [of h s]
  have dated: "\<forall>m \<in> set (map snd (medicines (data s))). has_expiry_string m"
    by blast
  let ?ms = "filter (expiry_le ''2025-01-01'') (map snd (medicines (data s)))"
  have "get_expired_medicines \<lparr>year = 2025, month = 1, day = 1\<rparr> s = Inr ?ms"
    using get_expired_medicines_filter [OF dated, of "\<lparr>year = 2025, month = 1, day = 1\<rparr>"]
    by (simp only: iso_2025_01_01)
  moreover have "\<forall>m \<in> set (map snd (medicines (data s))).
      map_of m ''expiry_date'' = Some (PStr ''2024-06-30'') \<longrightarrow> m \<in> set ?ms"
    by (simp add: expiry_le_def)
  moreover have "\<forall>m. map_of m ''expiry_date'' = Some (PStr ''2025-12-31'') \<longrightarrow> m \<notin> set ?ms"
    by (simp add: expiry_le_def)
  ultimately show "\<exists>ms. get_expired_medicines \<lparr>year = 2025, month = 1, day = 1\<rparr> s = Inr ms
            \<and> (\<forall>m \<in> set (map snd (medicines (data s))).
                  map_of m ''expiry_date'' = Some (PStr ''2024-06-30'') \<longrightarrow> m \<in> set ms)
            \<and> (\<forall>m. map_of m ''expiry_date'' = Some (PStr ''2025-12-31'') \<longrightarrow> m \<notin> set ms)"
    by blast
qed

theorem get_expired_medicines_exact_witness:
  "reachable rev example_pharmacy
 \<and> get_expired_medicines \<lparr>year = 2025, month = 1, day = 1\<rparr> example_pharmacy =
     Inr [[(''id'', PInt 2), (''name'', PStr ''Amoxicillin''), (''expiry_date'', PStr ''2024-06-30''),
           (''quantity'', PInt 5), (''unit_price'', PFloat 15.75), (''category'', PStr ''Antibiotic''),
           (''minimum_stock_level'', PInt 10), (''created_at'', PStr ''2024-01-01T09:00:01'')]]"
proof -
  have r: "reachable rev example_pharmacy"
    unfolding example_pharmacy_def by (intro reachable_run reachable.fresh)
  then have h: "reachable rev example_pharmacy
      \<or> (\<forall>m \<in> set (map snd (medicines (data example_pharmacy))). has_expiry_string m)"
    by (rule disjI1)
  have "get_expired_medicines \<lparr>year = 2025, month = 1, day = 1\<rparr> example_pharmacy =
     Inr [[(''id'', PInt 2), (''name'', PStr ''Amoxicillin''), (''expiry_date'', PStr ''2024-06-30''),
           (''quantity'', PInt 5), (''unit_price'', PFloat 15.75), (''category'', PStr ''Antibiotic''),
           (''minimum_stock_level'', PInt 10), (''created_at'', PStr ''2024-01-01T09:00:01'')]]"
    using get_expired_medicines_exact [OF h, of "\<lparr>year = 2025, month = 1, day = 1\<rparr>", THEN conjunct1]
    by (simp add: example_pharmacy_medicines str_defs expiry_le_def)
  with r show ?thesis by (intro conjI)
qed

subsection \<open>Saving and reloading\<close>

lemma update_absent: "k \<notin> fst ` set al \<Longrightarrow> AList.update k v al = al @ [(k, v)]"
  by (induction al) auto

lemma dict_of_pairs_distinct_aux:
  "distinct (map fst (acc @ ps)) \<Longrightarrow>
   foldl (\<lambda>acc (k, v). AList.update k v acc) acc ps = acc @ ps"
proof (induction ps arbitrary: acc)
  case Nil
  then show ?case by simp
next
  case (Cons a ps)
  obtain k v where a: "a = (k, v)" by (cases a)
  from Cons.prems have k: "k \<notin> fst ` set acc" and d: "distinct (map fst ((acc @ [(k, v)]) @ ps))"
    unfolding a by auto
  from k have "AList.update k v acc = acc @ [(k, v)]" by (rule update_absent)
  with Cons.IH [OF d] show ?case unfolding a by simp
qed

lemma dict_of_pairs_distinct: "distinct (map fst ps) \<Longrightarrow> dict_of_pairs ps = ps"
  using dict_of_pairs_distinct_aux [of "[]" ps] by (simp add: dict_of_pairs_def)

lemma reload_collection:
  assumes "distinct (map (key_str \<circ> fst) c)"
  shows "load_collection (dump_collection c) = map (\<lambda>(k, r). (KStr (key_str k), r)) c"
proof -
  have m: "map (\<lambda>(k, r). (KStr k, r)) (dump_collection c) = map (\<lambda>(k, r). (KStr (key_str k), r)) c"
    by (simp add: dump_collection_def case_prod_unfold)
  have "map fst (map (\<lambda>(k, r). (KStr (key_str k), r)) c) = map KStr (map (key_str \<circ> fst) c)"
    by (simp add: case_prod_unfold comp_def)
  with assms have "distinct (map fst (map (\<lambda>(k, r). (KStr (key_str k), r)) c))"
    by (simp add: distinct_map inj_on_def del: map_map)
  then show ?thesis
    unfolding load_collection_def m by (rule dict_of_pairs_distinct)
qed

text \<open>
  What saving and reloading keeps: when the keys of every collection are written as
  different strings, the reloaded document has the same counters and, in each collection,
  the same records in the same order, each under the string form of its key. So a
  collection with string keys only, such as \<open>users\<close>, comes back as it was.
\<close>

theorem reload_keeps_records_and_counters:
  assumes "distinct (map fst (next_ids (data s)))"
    and "distinct (map (key_str \<circ> fst) (users (data s)))"
    and "distinct (map (key_str \<circ> fst) (patients (data s)))"
    and "distinct (map (key_str \<circ> fst) (doctors (data s)))"
    and "distinct (map (key_str \<circ> fst) (beds (data s)))"
    and "distinct (map (key_str \<circ> fst) (medicines (data s)))"
  shows "next_ids (load_data (disk (save_data s))) = next_ids (data s)
       \<and> users (load_data (disk (save_data s))) = map (\<lambda>(k, r). (KStr (key_str k), r)) (users (data s))
       \<and> patients (load_data (disk (save_data s))) = map (\<lambda>(k, r). (KStr (key_str k), r)) (patients (data s))
       \<and> doctors (load_data (disk (save_data s))) = map (\<lambda>(k, r). (KStr (key_str k), r)) (doctors (data s))
       \<and> beds (load_data (disk (save_data s))) = map (\<lambda>(k, r). (KStr (key_str k), r)) (beds (data s))
       \<and> medicines (load_data (disk (save_data s))) = map (\<lambda>(k, r). (KStr (key_str k), r)) (medicines (data s))"
  using assms
  by (simp add: save_data_def load_data_def json_load_def json_dump_def reload_collection
      dict_of_pairs_distinct)

theorem reload_keeps_records_and_counters_witness:
  "next_ids (load_data (disk (save_data example_ward))) = next_ids (data example_ward)
 \<and> map snd (patients (load_data (disk (save_data example_ward)))) = map snd (patients (data example_ward))
 \<and> map fst (patients (load_data (disk (save_data example_ward)))) = [KStr ''1'', KStr ''2'']"
  using reload_keeps_records_and_counters [of example_ward]
  by (simp add: example_ward_data str_defs)

text \<open>
  Claim C1, evaluated on the example store. \<open>json.dump\<close> writes the integer keys of
  patients, doctors, beds and medicines as strings, so the reloaded document is not the
  saved one: the patients stored under \<open>1\<close> and \<open>2\<close> come back under \<open>"1"\<close> and
  \<open>"2"\<close>, \<open>get_patient 1\<close> finds nothing, and \<open>assign_bed 1 1\<close> reports that the
  bed is not found.
\<close>

theorem reload_loses_integer_keys:
  "get_patient 1 example_ward =
     Some [(''id'', PInt 1), (''first_name'', PStr ''Alice''), (''last_name'', PStr ''Johnson''),
           (''age'', PInt 35), (''gender'', PStr ''Female''), (''phone'', PStr ''123-456-7890''),
           (''email'', PStr ''alice@email.com''), (''medical_history'', PStr ''Diabetes''),
           (''allergies'', PStr ''Penicillin''), (''is_active'', PBool True),
           (''created_at'', PStr ''2024-01-01T09:00:00'')]
 \<and> map fst (patients (data example_ward)) = [KInt 1, KInt 2]
 \<and> map fst (patients (load_data (disk (save_data example_ward)))) = [KStr ''1'', KStr ''2'']
 \<and> load_data (disk (save_data example_ward)) \<noteq> data example_ward
 \<and> get_patient 1 (init (disk (save_data example_ward))) = None
 \<and> fst (assign_bed ''2024-03-01T08:00:00'' 1 1 (init (disk (save_data example_ward))))
     = Inl (NotFound Bed)"
proof -
  have k: "map fst (patients (load_data (disk (save_data example_ward)))) = [KStr ''1'', KStr ''2'']"
    by (simp add: save_data_def example_ward_data io_defs str_defs)
  have k0: "map fst (patients (data example_ward)) = [KInt 1, KInt 2]"
    by (simp add: example_ward_data)
  from k k0 have ne: "load_data (disk (save_data example_ward)) \<noteq> data example_ward"
    by auto
  have g: "get_patient 1 (init (disk (save_data example_ward))) = None"
    by (simp add: get_patient_def save_data_def example_ward_data io_defs str_defs)
  have b: "fst (assign_bed ''2024-03-01T08:00:00'' 1 1 (init (disk (save_data example_ward))))
     = Inl (NotFound Bed)"
    by (simp add: assign_bed_def save_data_def example_ward_data io_defs str_defs)
  show ?thesis
    using k k0 ne g b by (simp add: get_patient_def example_ward_data)
qed

end
